theory Spec2Isabelle
  imports Complex_Main "HOL-Library.Word"
begin

section \<open>The GasRelayer contract\<close>

text \<open>
  The contract is written in Solidity 0.8: every \<open>uint256\<close> is a natural number below
  \<open>2 ^ 256\<close>, and an addition, subtraction or multiplication that leaves that range reverts
  the transaction with \<open>Panic(0x11)\<close>. A reverted transaction leaves the storage as it was.
  The functions below take the storage and return either the error of the revert or the
  storage as the function leaves it.
\<close>

type_synonym address = "160 word"

datatype role = DEFAULT_ADMIN_ROLE | RELAYER_ROLE | ORACLE_ROLE

datatype event =
    GasPriceUpdated nat nat
  | RelayerCompensated address nat
  | PriceDeviationDetected nat nat nat
  | DailyLimitReset nat
  | EmergencyWithdrawal address address nat
  | Paused address
  | Unpaused address

datatype error =
    InvalidGasPrice nat
  | SuspiciousPriceMovement nat nat
  | DailyLimitExceeded nat nat
  | InsufficientBalance nat nat
  | TransferFailed
  | Revert string
  | Panic nat
  | MissingRole address role
  | ExternalCallReverted

text \<open>Calls that leave the contract: a token transfer and a plain transfer of ether.\<close>

datatype ext_call = TokenTransfer address address nat | EthSend address nat

datatype call_outcome = Returns bool | Reverts

record state =
  wdoge :: address
  gasPrice :: nat
  gasPriceLastUpdated :: nat
  relayerFeeMultiplier :: nat
  relayerBalances :: "address \<Rightarrow> nat"
  totalRelayerBalance :: nat
  dailyCompensation :: nat
  lastDailyReset :: nat
  roles :: "role \<Rightarrow> address \<Rightarrow> bool"
  paused :: bool
  entered :: bool
  events :: "event list"
  calls :: "ext_call list"

text \<open>
  What a transaction reads from outside the contract's storage: \<open>msg.sender\<close>,
  \<open>block.timestamp\<close>, \<open>tx.gasprice\<close>, the token balance that \<open>balanceOf(address(this))\<close>
  returns for a token, the contract's ether balance, and the outcome of the one external
  transfer the transaction makes. The token contract is not part of this development, so
  its answers are inputs.
\<close>

record env =
  sender :: address
  timestamp :: nat
  txGasPrice :: nat
  tokenBalanceOfThis :: "address \<Rightarrow> nat"
  ethBalanceOfThis :: nat
  callOutcome :: call_outcome

definition MAX_UINT256 :: nat where
  "MAX_UINT256 = 2 ^ 256 - 1"

definition gwei :: nat where
  "gwei = 1000000000"

definition ether :: nat where
  "ether = 1000000000000000000"

definition GAS_PRICE_UPDATE_INTERVAL :: nat where
  "GAS_PRICE_UPDATE_INTERVAL = 3600"

definition MAX_PRICE_DEVIATION :: nat where
  "MAX_PRICE_DEVIATION = 50"

definition MIN_GAS_PRICE :: nat where
  "MIN_GAS_PRICE = 1 * gwei"

definition MAX_GAS_PRICE :: nat where
  "MAX_GAS_PRICE = 500 * gwei"

definition MAX_DAILY_COMPENSATION :: nat where
  "MAX_DAILY_COMPENSATION = 1000 * ether"

definition ONE_DAY :: nat where
  "ONE_DAY = 86400"

subsection \<open>Checked arithmetic and sequencing\<close>

definition res_bind :: "error + 'a \<Rightarrow> ('a \<Rightarrow> error + 'b) \<Rightarrow> error + 'b" where
  "res_bind r f = (case r of Inl e \<Rightarrow> Inl e | Inr x \<Rightarrow> f x)"

definition checked_add :: "nat \<Rightarrow> nat \<Rightarrow> error + nat" where
  "checked_add a b = (if a + b \<le> MAX_UINT256 then Inr (a + b) else Inl (Panic 17))"

definition checked_sub :: "nat \<Rightarrow> nat \<Rightarrow> error + nat" where
  "checked_sub a b = (if b \<le> a then Inr (a - b) else Inl (Panic 17))"

definition checked_mul :: "nat \<Rightarrow> nat \<Rightarrow> error + nat" where
  "checked_mul a b = (if a * b \<le> MAX_UINT256 then Inr (a * b) else Inl (Panic 17))"

definition emit :: "event \<Rightarrow> state \<Rightarrow> state" where
  "emit ev s = s\<lparr>events := events s @ [ev]\<rparr>"

definition record_call :: "ext_call \<Rightarrow> state \<Rightarrow> state" where
  "record_call c s = s\<lparr>calls := calls s @ [c]\<rparr>"

subsection \<open>Modifiers inherited from AccessControl, ReentrancyGuard and Pausable\<close>

definition onlyRole :: "role \<Rightarrow> env \<Rightarrow> (state \<Rightarrow> error + state) \<Rightarrow> state \<Rightarrow> error + state" where
  "onlyRole r e body s =
     (if roles s r (sender e) then body s else Inl (MissingRole (sender e) r))"

definition nonReentrant :: "(state \<Rightarrow> error + state) \<Rightarrow> state \<Rightarrow> error + state" where
  "nonReentrant body s =
     (if entered s then Inl (Revert ''ReentrancyGuard: reentrant call'')
      else res_bind (body (s\<lparr>entered := True\<rparr>)) (\<lambda>s'. Inr (s'\<lparr>entered := False\<rparr>)))"

definition whenNotPaused :: "(state \<Rightarrow> error + state) \<Rightarrow> state \<Rightarrow> error + state" where
  "whenNotPaused body s =
     (if paused s then Inl (Revert ''Pausable: paused'') else body s)"

definition whenPaused :: "(state \<Rightarrow> error + state) \<Rightarrow> state \<Rightarrow> error + state" where
  "whenPaused body s =
     (if paused s then body s else Inl (Revert ''Pausable: not paused''))"

subsection \<open>Constructor\<close>

definition constructor :: "env \<Rightarrow> address \<Rightarrow> error + state" where
  "constructor e w =
     (if w = 0 then Inl (Revert ''Invalid WDOGE address'')
      else Inr \<lparr> wdoge = w,
                 gasPrice = 100 * gwei,
                 gasPriceLastUpdated = timestamp e,
                 relayerFeeMultiplier = 110,
                 relayerBalances = (\<lambda>_. 0),
                 totalRelayerBalance = 0,
                 dailyCompensation = 0,
                 lastDailyReset = timestamp e,
                 roles = (\<lambda>_ a. a = sender e),
                 paused = False,
                 entered = False,
                 events = [],
                 calls = [] \<rparr>)"

subsection \<open>Gas price oracle\<close>

definition updateGasPrice_body :: "env \<Rightarrow> state \<Rightarrow> error + state" where
  "updateGasPrice_body e s =
     res_bind (checked_add (gasPriceLastUpdated s) GAS_PRICE_UPDATE_INTERVAL) (\<lambda>due.
       if \<not> timestamp e \<ge> due then Inl (Revert ''Too soon to update'')
       else
         let newGasPrice = txGasPrice e in
         if newGasPrice < MIN_GAS_PRICE \<or> newGasPrice > MAX_GAS_PRICE
         then Inl (InvalidGasPrice newGasPrice)
         else
           res_bind
             (if gasPrice s > 0 then
                res_bind
                  (checked_mul
                     (if newGasPrice > gasPrice s then newGasPrice - gasPrice s
                      else gasPrice s - newGasPrice) 100)
                  (\<lambda>scaled.
                     let deviation = scaled div gasPrice s in
                     if deviation > MAX_PRICE_DEVIATION
                     then Inl (SuspiciousPriceMovement (gasPrice s) newGasPrice)
                     else if deviation > 30
                     then Inr (emit (PriceDeviationDetected (gasPrice s) newGasPrice deviation) s)
                     else Inr s)
              else Inr s)
             (\<lambda>s1. Inr (emit (GasPriceUpdated newGasPrice (timestamp e))
                           (s1\<lparr>gasPrice := newGasPrice,
                               gasPriceLastUpdated := timestamp e\<rparr>))))"

definition updateGasPrice :: "env \<Rightarrow> state \<Rightarrow> error + state" where
  "updateGasPrice e = onlyRole ORACLE_ROLE e (whenNotPaused (updateGasPrice_body e))"

text \<open>The deviation that \<open>updateGasPrice\<close> compares with its two thresholds, as a function
  of the stored and the observed price: the difference is multiplied by 100 first and the
  division truncates.\<close>

definition contract_deviation :: "nat \<Rightarrow> nat \<Rightarrow> nat" where
  "contract_deviation old new = (if new > old then new - old else old - new) * 100 div old"

text \<open>The deviation in the words of the specification, \<open>|new - old| / old * 100\<close>, as an
  exact fraction.\<close>

definition spec_deviation :: "nat \<Rightarrow> nat \<Rightarrow> rat" where
  "spec_deviation old new =
     of_nat (if new > old then new - old else old - new) / of_nat old * 100"

subsection \<open>Relayer compensation and the daily circuit breaker\<close>

definition resetDailyLimit :: "env \<Rightarrow> state \<Rightarrow> error + state" where
  "resetDailyLimit e s =
     res_bind (checked_add (lastDailyReset s) ONE_DAY) (\<lambda>due.
       if timestamp e \<ge> due
       then Inr (emit (DailyLimitReset (timestamp e))
                   (s\<lparr>dailyCompensation := 0, lastDailyReset := timestamp e\<rparr>))
       else Inr s)"

definition estimateGasFee :: "state \<Rightarrow> nat \<Rightarrow> error + nat" where
  "estimateGasFee s gasLimit =
     res_bind (checked_mul (gasPrice s) gasLimit) (\<lambda>a.
     res_bind (checked_mul a (relayerFeeMultiplier s)) (\<lambda>b.
     Inr (b div 100)))"

definition compensateRelayer_body :: "env \<Rightarrow> address \<Rightarrow> nat \<Rightarrow> state \<Rightarrow> error + state" where
  "compensateRelayer_body e relayer gasUsed s =
     res_bind (resetDailyLimit e s) (\<lambda>s1.
     res_bind (checked_mul (gasPrice s1) gasUsed) (\<lambda>a.
     res_bind (checked_mul a (relayerFeeMultiplier s1)) (\<lambda>b.
     let compensation = b div 100 in
     res_bind (checked_add (dailyCompensation s1) compensation) (\<lambda>total.
       if total > MAX_DAILY_COMPENSATION
       then res_bind (checked_sub MAX_DAILY_COMPENSATION (dailyCompensation s1)) (\<lambda>left.
              Inl (DailyLimitExceeded compensation left))
       else
         res_bind (checked_add (dailyCompensation s1) compensation) (\<lambda>d.
         res_bind (checked_add (relayerBalances s1 relayer) compensation) (\<lambda>bal.
         res_bind (checked_add (totalRelayerBalance s1) compensation) (\<lambda>t.
         Inr (emit (RelayerCompensated relayer compensation)
                (s1\<lparr>dailyCompensation := d,
                    relayerBalances := (relayerBalances s1)(relayer := bal),
                    totalRelayerBalance := t\<rparr>)))))))))"

definition compensateRelayer :: "env \<Rightarrow> address \<Rightarrow> nat \<Rightarrow> state \<Rightarrow> error + state" where
  "compensateRelayer e relayer gasUsed =
     onlyRole RELAYER_ROLE e (nonReentrant (whenNotPaused (compensateRelayer_body e relayer gasUsed)))"

definition withdrawRelayerBalance_body :: "env \<Rightarrow> state \<Rightarrow> error + state" where
  "withdrawRelayerBalance_body e s =
     (let balance = relayerBalances s (sender e) in
      if balance = 0 then Inl (InsufficientBalance 0 0)
      else
        let contractBalance = tokenBalanceOfThis e (wdoge s) in
        if contractBalance < balance then Inl (InsufficientBalance balance contractBalance)
        else
          res_bind (checked_sub (totalRelayerBalance s) balance) (\<lambda>t.
            let s1 = record_call (TokenTransfer (wdoge s) (sender e) balance)
                       (s\<lparr>relayerBalances := (relayerBalances s)(sender e := 0),
                          totalRelayerBalance := t\<rparr>)
            in case callOutcome e of
                 Reverts \<Rightarrow> Inl ExternalCallReverted
               | Returns success \<Rightarrow> if \<not> success then Inl TransferFailed else Inr s1))"

definition withdrawRelayerBalance :: "env \<Rightarrow> state \<Rightarrow> error + state" where
  "withdrawRelayerBalance e = nonReentrant (whenNotPaused (withdrawRelayerBalance_body e))"

subsection \<open>Administration\<close>

definition setRelayerFeeMultiplier :: "env \<Rightarrow> nat \<Rightarrow> state \<Rightarrow> error + state" where
  "setRelayerFeeMultiplier e m =
     onlyRole DEFAULT_ADMIN_ROLE e (\<lambda>s.
       if \<not> m \<ge> 100 then Inl (Revert ''Multiplier must be >= 100'')
       else if \<not> m \<le> 150 then Inl (Revert ''Multiplier must be <= 150'')
       else Inr (s\<lparr>relayerFeeMultiplier := m\<rparr>))"

definition pause :: "env \<Rightarrow> state \<Rightarrow> error + state" where
  "pause e =
     onlyRole DEFAULT_ADMIN_ROLE e
       (whenNotPaused (\<lambda>s. Inr (emit (Paused (sender e)) (s\<lparr>paused := True\<rparr>))))"

definition unpause :: "env \<Rightarrow> state \<Rightarrow> error + state" where
  "unpause e =
     onlyRole DEFAULT_ADMIN_ROLE e
       (whenPaused (\<lambda>s. Inr (emit (Unpaused (sender e)) (s\<lparr>paused := False\<rparr>))))"

definition emergencyWithdraw :: "env \<Rightarrow> address \<Rightarrow> address \<Rightarrow> state \<Rightarrow> error + state" where
  "emergencyWithdraw e token recipient =
     onlyRole DEFAULT_ADMIN_ROLE e (\<lambda>s.
       if \<not> paused s then Inl (Revert ''Must be paused'')
       else if \<not> recipient \<noteq> 0 then Inl (Revert ''Invalid recipient'')
       else if token = 0 then
         (let amount = ethBalanceOfThis e in
          if callOutcome e = Returns True
          then Inr (emit (EmergencyWithdrawal token recipient amount)
                      (record_call (EthSend recipient amount) s))
          else Inl (Revert ''ETH transfer failed''))
       else
         (let amount = tokenBalanceOfThis e token in
          case callOutcome e of
            Reverts \<Rightarrow> Inl ExternalCallReverted
          | Returns ok \<Rightarrow>
              if ok
              then Inr (emit (EmergencyWithdrawal token recipient amount)
                          (record_call (TokenTransfer token recipient amount) s))
              else Inl (Revert ''Token transfer failed'')))"

text \<open>Role management, inherited from AccessControl: every role is administered by the
  default admin role, and an account may renounce a role of its own.\<close>

definition grantRole :: "env \<Rightarrow> role \<Rightarrow> address \<Rightarrow> state \<Rightarrow> error + state" where
  "grantRole e r a =
     onlyRole DEFAULT_ADMIN_ROLE e (\<lambda>s. Inr (s\<lparr>roles := (roles s)(r := (roles s r)(a := True))\<rparr>))"

definition revokeRole :: "env \<Rightarrow> role \<Rightarrow> address \<Rightarrow> state \<Rightarrow> error + state" where
  "revokeRole e r a =
     onlyRole DEFAULT_ADMIN_ROLE e (\<lambda>s. Inr (s\<lparr>roles := (roles s)(r := (roles s r)(a := False))\<rparr>))"

definition renounceRole :: "env \<Rightarrow> role \<Rightarrow> address \<Rightarrow> state \<Rightarrow> error + state" where
  "renounceRole e r a s =
     (if a \<noteq> sender e then Inl (Revert ''AccessControl: can only renounce roles for self'')
      else Inr (s\<lparr>roles := (roles s)(r := (roles s r)(a := False))\<rparr>))"

subsection \<open>Transactions and reachable states\<close>

datatype call =
    UpdateGasPrice
  | CompensateRelayer address nat
  | WithdrawRelayerBalance
  | SetRelayerFeeMultiplier nat
  | Pause
  | Unpause
  | EmergencyWithdraw address address
  | GrantRole role address
  | RevokeRole role address
  | RenounceRole role address

fun dispatch :: "env \<Rightarrow> call \<Rightarrow> state \<Rightarrow> error + state" where
  "dispatch e UpdateGasPrice s = updateGasPrice e s"
| "dispatch e (CompensateRelayer relayer gasUsed) s = compensateRelayer e relayer gasUsed s"
| "dispatch e WithdrawRelayerBalance s = withdrawRelayerBalance e s"
| "dispatch e (SetRelayerFeeMultiplier m) s = setRelayerFeeMultiplier e m s"
| "dispatch e Pause s = pause e s"
| "dispatch e Unpause s = unpause e s"
| "dispatch e (EmergencyWithdraw token recipient) s = emergencyWithdraw e token recipient s"
| "dispatch e (GrantRole r a) s = grantRole e r a s"
| "dispatch e (RevokeRole r a) s = revokeRole e r a s"
| "dispatch e (RenounceRole r a) s = renounceRole e r a s"

text \<open>The storage after a transaction: a revert leaves it as it was.\<close>

definition transact :: "env \<Rightarrow> call \<Rightarrow> state \<Rightarrow> state" where
  "transact e c s = (case dispatch e c s of Inl _ \<Rightarrow> s | Inr s' \<Rightarrow> s')"

inductive reachable :: "state \<Rightarrow> bool" where
  deployed: "constructor e w = Inr s \<Longrightarrow> reachable s"
| step: "reachable s \<Longrightarrow> reachable (transact e c s)"

section \<open>Off-chain services\<close>

text \<open>
  The TypeScript services are asynchronous. A promise resolves with a value, rejects with
  the value that was thrown, or never settles; an \<open>await\<close> on a promise that never settles
  never returns. What the network answers is an input: the outcome of the webhook request,
  and the outcome of each submission of a contract transaction, numbered by the attempt
  that makes it.
\<close>

text \<open>The values that are thrown: an \<open>Error\<close> object with its message, a value that is
  not an \<open>Error\<close> and has no \<open>message\<close> property, \<open>undefined\<close> and \<open>null\<close>.\<close>

datatype js_error = JsError string | NonError | Undefined | Null

datatype 'a promise = Resolved 'a | Rejected js_error | Pending

text \<open>Reading a property of \<open>undefined\<close> or \<open>null\<close> throws a \<open>TypeError\<close>; the message is
  the one of Node.js.\<close>

definition property_of_nothing :: "string \<Rightarrow> string \<Rightarrow> js_error" where
  "property_of_nothing nothing property =
     JsError (''Cannot read properties of '' @ nothing @ '' (reading '' @ [CHR 0x27]
                @ property @ [CHR 0x27] @ '')'')"

text \<open>The expression \<open>error.message\<close> inside a template literal: the message of an
  \<open>Error\<close>, the text "undefined" for a value without that property, and a thrown
  \<open>TypeError\<close> for \<open>undefined\<close> and \<open>null\<close>.\<close>

fun read_message :: "js_error \<Rightarrow> js_error + string" where
  "read_message (JsError m) = Inr m"
| "read_message NonError = Inr ''undefined''"
| "read_message Undefined = Inl (property_of_nothing ''undefined'' ''message'')"
| "read_message Null = Inl (property_of_nothing ''null'' ''message'')"

fun string_of_nat :: "nat \<Rightarrow> string" where
  "string_of_nat n =
     (if n < 10 then [''0123456789'' ! n]
      else string_of_nat (n div 10) @ [''0123456789'' ! (n mod 10)])"

subsection \<open>AlertManager\<close>

datatype severity = Info | Warning | Error

record alert =
  title :: string
  message :: string
  severity :: severity
  environment :: string
  isoTimestamp :: string

record http_request =
  httpMethod :: string
  contentType :: string
  body :: alert

datatype fetch_outcome =
    NetworkError js_error
  | Thrown js_error
  | Response bool string
  | NeverSettles

record alert_manager =
  webhookUrl :: string
  managerEnvironment :: string

text \<open>A call of \<open>console.error\<close>: with one text, or with a text and the value that is
  printed after it.\<close>

datatype console_entry = ErrorText string | ErrorValue string js_error

text \<open>A run of \<open>sendAlert\<close>: how its promise settles, what it printed, and the requests it
  made, each with the address it went to.\<close>

record alert_run =
  settled :: "unit promise"
  printed :: "console_entry list"
  posted :: "(string \<times> http_request) list"

definition try_catch ::
  "unit promise \<times> console_entry list \<Rightarrow>
     (js_error \<Rightarrow> console_entry list \<Rightarrow> unit promise \<times> console_entry list) \<Rightarrow>
     unit promise \<times> console_entry list" where
  "try_catch attempt handler =
     (case attempt of
        (Rejected err, out) \<Rightarrow> handler err out
      | (Resolved v, out) \<Rightarrow> (Resolved v, out)
      | (Pending, out) \<Rightarrow> (Pending, out))"

definition alert_request :: "alert_manager \<Rightarrow> string \<Rightarrow> string \<Rightarrow> string \<Rightarrow> severity \<Rightarrow> http_request" where
  "alert_request am now ttl msg sev =
     \<lparr> httpMethod = ''POST'', contentType = ''application/json'',
       body = \<lparr> title = ttl, message = msg, severity = sev,
                environment = managerEnvironment am, isoTimestamp = now \<rparr> \<rparr>"

definition sendAlert ::
  "(string \<Rightarrow> http_request \<Rightarrow> fetch_outcome) \<Rightarrow> alert_manager \<Rightarrow> string \<Rightarrow>
     string \<Rightarrow> string \<Rightarrow> severity \<Rightarrow> alert_run" where
  "sendAlert fetch am now ttl msg sev =
     (let req = alert_request am now ttl msg sev;
          (p, out) =
            try_catch
              (case fetch (webhookUrl am) req of
                 NetworkError err \<Rightarrow> (Rejected err, [])
               | Thrown err \<Rightarrow> (Rejected err, [])
               | NeverSettles \<Rightarrow> (Pending, [])
               | Response ok statusText \<Rightarrow>
                   if \<not> ok then (Resolved (), [ErrorText (''Failed to send alert: '' @ statusText)])
                   else (Resolved (), []))
              (\<lambda>err out'. (Resolved (), out' @ [ErrorValue ''Error sending alert:'' err]))
      in \<lparr> settled = p, printed = out, posted = [(webhookUrl am, req)] \<rparr>)"

subsection \<open>GasRelayerService\<close>

record retry_options =
  maxAttempts :: nat
  initialDelay :: nat
  maxDelay :: nat

definition defaultRetryOptions :: retry_options where
  "defaultRetryOptions = \<lparr> maxAttempts = 3, initialDelay = 1000, maxDelay = 10000 \<rparr>"

text \<open>What the last attempt throws, \<open>new Error(`Failed after ... ${lastError.message}`)\<close>:
  the new error, or the \<open>TypeError\<close> that reading \<open>lastError.message\<close> throws first.\<close>

definition exhausted_error :: "nat \<Rightarrow> js_error \<Rightarrow> js_error" where
  "exhausted_error attempt lastError =
     (case read_message lastError of
        Inl typeError \<Rightarrow> typeError
      | Inr m \<Rightarrow> JsError (''Failed after '' @ string_of_nat attempt
                            @ '' attempts. Last error: '' @ m))"

text \<open>A run of the retry loop: how its promise settles, how many times it invoked the
  operation, and the delays in milliseconds it slept between the attempts.\<close>

record 'a retry_run =
  outcome :: "'a promise"
  invocations :: nat
  delays :: "nat list"

function retry_loop ::
  "(nat \<Rightarrow> 'a promise) \<Rightarrow> retry_options \<Rightarrow> nat \<Rightarrow> nat list \<Rightarrow> 'a retry_run" where
  "retry_loop operation options attempt slept =
     (if attempt \<le> maxAttempts options then
        (case operation attempt of
           Resolved v \<Rightarrow> \<lparr> outcome = Resolved v, invocations = attempt, delays = slept \<rparr>
         | Pending \<Rightarrow> \<lparr> outcome = Pending, invocations = attempt, delays = slept \<rparr>
         | Rejected lastError \<Rightarrow>
             if attempt = maxAttempts options
             then \<lparr> outcome = Rejected (exhausted_error attempt lastError),
                    invocations = attempt, delays = slept \<rparr>
             else retry_loop operation options (attempt + 1)
                    (slept @ [min (initialDelay options * 2 ^ (attempt - 1)) (maxDelay options)]))
      else \<lparr> outcome = Rejected Undefined, invocations = attempt - 1, delays = slept \<rparr>)"
  by pat_completeness auto
termination
  by (relation "measure (\<lambda>(operation, options, attempt, slept). Suc (maxAttempts options) - attempt)")
    auto

declare retry_loop.simps [simp del]

definition retryWithBackoff :: "(nat \<Rightarrow> 'a promise) \<Rightarrow> retry_options \<Rightarrow> 'a retry_run" where
  "retryWithBackoff operation options = retry_loop operation options 1 []"

text \<open>A run of a service method: how its promise settles, the number of times the
  contract transaction was submitted, the delays slept, the console output and the
  alert requests made.\<close>

record service_run =
  result :: "unit promise"
  submissions :: nat
  slept :: "nat list"
  console :: "console_entry list"
  alerts :: "(string \<times> http_request) list"

definition GasRelayerService_compensateRelayer ::
  "(string \<Rightarrow> http_request \<Rightarrow> fetch_outcome) \<Rightarrow> alert_manager \<Rightarrow> string \<Rightarrow>
     (string \<Rightarrow> nat \<Rightarrow> nat \<Rightarrow> unit promise) \<Rightarrow> string \<Rightarrow> nat \<Rightarrow> service_run" where
  "GasRelayerService_compensateRelayer fetch am now contractCall relayer gasUsed =
     (let run = retryWithBackoff (contractCall relayer gasUsed) defaultRetryOptions in
      case outcome run of
        Resolved _ \<Rightarrow>
          \<lparr> result = Resolved (), submissions = invocations run, slept = delays run,
            console = [], alerts = [] \<rparr>
      | Pending \<Rightarrow>
          \<lparr> result = Pending, submissions = invocations run, slept = delays run,
            console = [], alerts = [] \<rparr>
      | Rejected error \<Rightarrow>
          (case read_message error of
             Inl typeError \<Rightarrow>
               \<lparr> result = Rejected typeError, submissions = invocations run,
                 slept = delays run, console = [], alerts = [] \<rparr>
           | Inr m \<Rightarrow>
               (let sent = sendAlert fetch am now ''Relayer Compensation Failed''
                             (''Failed to compensate relayer '' @ relayer @ '': '' @ m) Info
                in \<lparr> result = (case settled sent of
                                  Resolved _ \<Rightarrow> Rejected error
                                | Rejected alertError \<Rightarrow> Rejected alertError
                                | Pending \<Rightarrow> Pending),
                      submissions = invocations run, slept = delays run,
                      console = printed sent, alerts = posted sent \<rparr>)))"

definition GasRelayerService_withdrawRelayerBalance ::
  "(string \<Rightarrow> http_request \<Rightarrow> fetch_outcome) \<Rightarrow> alert_manager \<Rightarrow> string \<Rightarrow>
     (address \<Rightarrow> nat \<Rightarrow> unit promise) \<Rightarrow> string \<Rightarrow> address \<Rightarrow> service_run" where
  "GasRelayerService_withdrawRelayerBalance fetch am now contractCall relayer signer =
     (let run = retryWithBackoff (contractCall signer) defaultRetryOptions in
      case outcome run of
        Resolved _ \<Rightarrow>
          \<lparr> result = Resolved (), submissions = invocations run, slept = delays run,
            console = [], alerts = [] \<rparr>
      | Pending \<Rightarrow>
          \<lparr> result = Pending, submissions = invocations run, slept = delays run,
            console = [], alerts = [] \<rparr>
      | Rejected error \<Rightarrow>
          (case read_message error of
             Inl typeError \<Rightarrow>
               \<lparr> result = Rejected typeError, submissions = invocations run,
                 slept = delays run, console = [], alerts = [] \<rparr>
           | Inr m \<Rightarrow>
               (let sent = sendAlert fetch am now ''Withdrawal Failed''
                             (''Failed to withdraw relayer balance for '' @ relayer @ '': '' @ m)
                             Info
                in \<lparr> result = (case settled sent of
                                  Resolved _ \<Rightarrow> Rejected error
                                | Rejected alertError \<Rightarrow> Rejected alertError
                                | Pending \<Rightarrow> Pending),
                      submissions = invocations run, slept = delays run,
                      console = printed sent, alerts = posted sent \<rparr>)))"

section \<open>Example inputs\<close>

text \<open>The deployment of the test suite: the owner deploys the contract and the token
  holds 1000 tokens for it.\<close>

definition owner_env :: env where
  "owner_env = \<lparr> sender = 1, timestamp = 1700000000, txGasPrice = 100 * gwei,
                  tokenBalanceOfThis = (\<lambda>_. 1000 * ether), ethBalanceOfThis = 0,
                  callOutcome = Returns True \<rparr>"

definition deployed_state :: state where
  "deployed_state = \<lparr> wdoge = 2, gasPrice = 100 * gwei, gasPriceLastUpdated = 1700000000,
     relayerFeeMultiplier = 110, relayerBalances = (\<lambda>_. 0), totalRelayerBalance = 0,
     dailyCompensation = 0, lastDailyReset = 1700000000, roles = (\<lambda>_ a. a = 1),
     paused = False, entered = False, events = [], calls = [] \<rparr>"

text \<open>A relayer at address 5, the storage after the owner has compensated it for 50000
  gas, and the storage after the owner has then paused the contract.\<close>

definition relayer_env :: env where
  "relayer_env = \<lparr> sender = 5, timestamp = 1700000100, txGasPrice = 100 * gwei,
                    tokenBalanceOfThis = (\<lambda>_. 1000 * ether), ethBalanceOfThis = 0,
                    callOutcome = Returns True \<rparr>"

definition compensated_state :: state where
  "compensated_state = transact owner_env (CompensateRelayer 5 50000) deployed_state"

definition paused_state :: state where
  "paused_state = transact owner_env Pause compensated_state"

definition withdrawn_state :: state where
  "withdrawn_state = transact relayer_env WithdrawRelayerBalance compensated_state"

text \<open>One hour after the deployment the owner, who holds the oracle role, sends a
  transaction with a gas price of 150.5 gwei.\<close>

definition update_env :: env where
  "update_env = owner_env\<lparr>timestamp := 1700003600, txGasPrice := 150500000000\<rparr>"

text \<open>An alert manager; a webhook that answers 200, one whose connection fails and one
  that never answers; a contract call that reverts at every attempt, one that fails at
  the first attempt only, and one whose promise rejects with \<open>undefined\<close> every time.\<close>

definition example_manager :: alert_manager where
  "example_manager = \<lparr> webhookUrl = ''https://hooks.example/alerts'',
                        managerEnvironment = ''production'' \<rparr>"

definition example_now :: string where
  "example_now = ''2024-02-01T00:00:00.000Z''"

definition ok_fetch :: "string \<Rightarrow> http_request \<Rightarrow> fetch_outcome" where
  "ok_fetch url req = Response True ''OK''"

definition failing_fetch :: "string \<Rightarrow> http_request \<Rightarrow> fetch_outcome" where
  "failing_fetch url req = NetworkError (JsError ''fetch failed'')"

definition hanging_fetch :: "string \<Rightarrow> http_request \<Rightarrow> fetch_outcome" where
  "hanging_fetch url req = NeverSettles"

definition always_reverting :: "string \<Rightarrow> nat \<Rightarrow> nat \<Rightarrow> unit promise" where
  "always_reverting relayer gasUsed attempt = Rejected (JsError ''execution reverted'')"

definition failing_once :: "string \<Rightarrow> nat \<Rightarrow> nat \<Rightarrow> unit promise" where
  "failing_once relayer gasUsed attempt =
     (if attempt = 1 then Rejected (JsError ''timeout'') else Resolved ())"

definition rejecting_undefined :: "string \<Rightarrow> nat \<Rightarrow> nat \<Rightarrow> unit promise" where
  "rejecting_undefined relayer gasUsed attempt = Rejected Undefined"

section \<open>Properties of the contract\<close>

lemmas arith_defs = res_bind_def checked_add_def checked_sub_def checked_mul_def

lemma max_uint256_numeral:
  "MAX_UINT256 = 115792089237316195423570985008687907853269984665640564039457584007913129639935"
  by (simp add: MAX_UINT256_def)

lemmas const_defs = gwei_def ether_def GAS_PRICE_UPDATE_INTERVAL_def MAX_PRICE_DEVIATION_def
  MIN_GAS_PRICE_def MAX_GAS_PRICE_def MAX_DAILY_COMPENSATION_def ONE_DAY_def

lemmas modifier_defs = onlyRole_def nonReentrant_def whenNotPaused_def whenPaused_def

lemma constructor_deployed_state: "constructor owner_env 2 = Inr deployed_state"
  by (simp add: constructor_def owner_env_def deployed_state_def)

lemma reachable_deployed_state: "reachable deployed_state"
  using constructor_deployed_state by (rule reachable.deployed)

lemma compensated_state_eq:
  "compensateRelayer owner_env 5 50000 deployed_state = Inr compensated_state"
  by (simp add: compensated_state_def transact_def compensateRelayer_def
      compensateRelayer_body_def resetDailyLimit_def modifier_defs arith_defs MAX_UINT256_def
      emit_def Let_def owner_env_def deployed_state_def const_defs)

lemma reachable_compensated_state: "reachable compensated_state"
  unfolding compensated_state_def using reachable_deployed_state by (rule reachable.step)

lemma compensated_state_fields:
  "relayerBalances compensated_state 5 = 5500000000000000"
  "totalRelayerBalance compensated_state = 5500000000000000"
  "paused compensated_state = False"
  "wdoge compensated_state = 2"
  "calls compensated_state = []"
  "roles compensated_state r a = (a = 1)"
  by (simp_all add: compensated_state_def transact_def compensateRelayer_def
      compensateRelayer_body_def resetDailyLimit_def modifier_defs arith_defs MAX_UINT256_def
      emit_def Let_def owner_env_def deployed_state_def const_defs)

lemma withdrawn_state_eq:
  "withdrawRelayerBalance relayer_env compensated_state = Inr withdrawn_state"
  by (simp add: withdrawn_state_def compensated_state_def transact_def compensateRelayer_def
      compensateRelayer_body_def resetDailyLimit_def withdrawRelayerBalance_def
      withdrawRelayerBalance_body_def record_call_def modifier_defs arith_defs MAX_UINT256_def
      emit_def Let_def owner_env_def relayer_env_def deployed_state_def const_defs)

lemma paused_state_eq: "pause owner_env compensated_state = Inr paused_state"
  by (simp add: paused_state_def transact_def pause_def compensated_state_def compensateRelayer_def
      compensateRelayer_body_def resetDailyLimit_def modifier_defs arith_defs max_uint256_numeral
      emit_def Let_def owner_env_def deployed_state_def const_defs)

lemma paused_state_fields:
  "paused paused_state" "relayerFeeMultiplier paused_state = 110"
  "roles paused_state r a = (a = 1)" "relayerBalances paused_state 5 = 5500000000000000"
  by (simp_all add: paused_state_def transact_def pause_def compensated_state_def compensateRelayer_def
      compensateRelayer_body_def resetDailyLimit_def modifier_defs arith_defs max_uint256_numeral
      emit_def Let_def owner_env_def deployed_state_def const_defs)

lemma reachable_paused_state: "reachable paused_state"
  unfolding paused_state_def using reachable_compensated_state by (rule reachable.step)

subsection \<open>Invariants of the reachable states\<close>

lemma sum_fun_upd:
  fixes f :: "address \<Rightarrow> nat"
  shows "sum (f(a := v)) UNIV = sum f UNIV - f a + v"
proof -
  have 1: "sum f UNIV = f a + sum f (UNIV - {a})"
    by (rule sum.remove) simp_all
  have 2: "sum (f(a := v)) UNIV = (f(a := v)) a + sum (f(a := v)) (UNIV - {a})"
    by (rule sum.remove) simp_all
  have 3: "sum (f(a := v)) (UNIV - {a}) = sum f (UNIV - {a})"
    by (rule sum.cong) simp_all
  show ?thesis using 1 2 3 by simp
qed

lemma balance_le_sum:
  fixes f :: "address \<Rightarrow> nat"
  shows "f a \<le> sum f UNIV"
proof -
  have "sum f UNIV = f a + sum f (UNIV - {a})"
    by (rule sum.remove) simp_all
  then show ?thesis by simp
qed

lemma compensateRelayer_effect:
  assumes "compensateRelayer e relayer gasUsed s = Inr s'"
  shows "\<exists>c. relayerBalances s' = (relayerBalances s)(relayer := relayerBalances s relayer + c)
           \<and> totalRelayerBalance s' = totalRelayerBalance s + c
           \<and> c = gasPrice s * gasUsed * relayerFeeMultiplier s div 100
           \<and> dailyCompensation s' \<le> MAX_DAILY_COMPENSATION
           \<and> entered s' = False"
  using assms
  by (auto simp: compensateRelayer_def compensateRelayer_body_def resetDailyLimit_def
      modifier_defs arith_defs emit_def Let_def split: if_splits sum.splits)

lemma withdrawRelayerBalance_effect:
  assumes "withdrawRelayerBalance e s = Inr s'"
  shows "relayerBalances s' = (relayerBalances s)(sender e := 0)
       \<and> totalRelayerBalance s' = totalRelayerBalance s - relayerBalances s (sender e)
       \<and> relayerBalances s (sender e) \<le> totalRelayerBalance s
       \<and> dailyCompensation s' = dailyCompensation s
       \<and> entered s' = False"
  using assms
  by (auto simp: withdrawRelayerBalance_def withdrawRelayerBalance_body_def
      modifier_defs arith_defs record_call_def Let_def split: if_splits sum.splits call_outcome.splits)

lemma other_calls_frame:
  assumes "dispatch e c s = Inr s'"
    and "\<forall>r g. c \<noteq> CompensateRelayer r g" and "c \<noteq> WithdrawRelayerBalance"
  shows "relayerBalances s' = relayerBalances s \<and> totalRelayerBalance s' = totalRelayerBalance s
       \<and> dailyCompensation s' = dailyCompensation s \<and> entered s' = entered s"
  using assms
  by (cases c)
    (auto simp: updateGasPrice_def updateGasPrice_body_def setRelayerFeeMultiplier_def pause_def
      unpause_def emergencyWithdraw_def grantRole_def revokeRole_def renounceRole_def
      modifier_defs arith_defs emit_def record_call_def Let_def
      split: if_splits sum.splits call_outcome.splits)

lemma dispatch_preserves_sum:
  assumes "dispatch e c s = Inr s'" and "totalRelayerBalance s = sum (relayerBalances s) UNIV"
  shows "totalRelayerBalance s' = sum (relayerBalances s') UNIV"
proof (cases c)
  case (CompensateRelayer r g)
  with assms(1) have "compensateRelayer e r g s = Inr s'" by simp
  from compensateRelayer_effect [OF this] obtain c where
    b: "relayerBalances s' = (relayerBalances s)(r := relayerBalances s r + c)" and
    t: "totalRelayerBalance s' = totalRelayerBalance s + c"
    by blast
  have "sum (relayerBalances s') UNIV
          = sum (relayerBalances s) UNIV - relayerBalances s r + (relayerBalances s r + c)"
    unfolding b by (rule sum_fun_upd)
  also have "\<dots> = sum (relayerBalances s) UNIV + c"
    using balance_le_sum [of "relayerBalances s" r] by simp
  finally show ?thesis using t assms(2) by simp
next
  case WithdrawRelayerBalance
  with assms(1) have "withdrawRelayerBalance e s = Inr s'" by simp
  from withdrawRelayerBalance_effect [OF this] have
    b: "relayerBalances s' = (relayerBalances s)(sender e := 0)" and
    t: "totalRelayerBalance s' = totalRelayerBalance s - relayerBalances s (sender e)"
    by simp_all
  have "sum (relayerBalances s') UNIV
          = sum (relayerBalances s) UNIV - relayerBalances s (sender e) + 0"
    unfolding b by (rule sum_fun_upd)
  then show ?thesis using t assms(2) by simp
qed (use assms other_calls_frame [OF assms(1)] in simp_all)


lemma dispatch_preserves_not_entered:
  assumes "dispatch e c s = Inr s'" and "\<not> entered s"
  shows "\<not> entered s'"
proof (cases c)
  case (CompensateRelayer r g)
  with assms(1) have "compensateRelayer e r g s = Inr s'" by simp
  from compensateRelayer_effect [OF this] show ?thesis by auto
next
  case WithdrawRelayerBalance
  with assms(1) have "withdrawRelayerBalance e s = Inr s'" by simp
  from withdrawRelayerBalance_effect [OF this] assms(2) show ?thesis by simp
qed (use assms other_calls_frame [OF assms(1)] in simp_all)

lemma reachable_sum:
  "reachable s \<Longrightarrow> totalRelayerBalance s = sum (relayerBalances s) UNIV"
proof (induction rule: reachable.induct)
  case (deployed e w s)
  then show ?case by (auto simp: constructor_def split: if_splits)
next
  case (step s e c)
  then show ?case
    by (cases "dispatch e c s") (auto simp: transact_def dest: dispatch_preserves_sum)
qed


lemma reachable_not_entered:
  "reachable s \<Longrightarrow> \<not> entered s"
proof (induction rule: reachable.induct)
  case (deployed e w s)
  then show ?case by (auto simp: constructor_def split: if_splits)
next
  case (step s e c)
  then show ?case
    by (cases "dispatch e c s") (auto simp: transact_def dest: dispatch_preserves_not_entered)
qed

lemmas call_defs = updateGasPrice_def updateGasPrice_body_def compensateRelayer_def
  compensateRelayer_body_def resetDailyLimit_def withdrawRelayerBalance_def
  withdrawRelayerBalance_body_def setRelayerFeeMultiplier_def pause_def
  unpause_def emergencyWithdraw_def grantRole_def revokeRole_def renounceRole_def

lemma dispatch_preserves_params:
  assumes "dispatch e c s = Inr s'"
    and "100 \<le> relayerFeeMultiplier s \<and> relayerFeeMultiplier s \<le> 150
       \<and> MIN_GAS_PRICE \<le> gasPrice s \<and> gasPrice s \<le> MAX_GAS_PRICE"
  shows "100 \<le> relayerFeeMultiplier s' \<and> relayerFeeMultiplier s' \<le> 150
       \<and> MIN_GAS_PRICE \<le> gasPrice s' \<and> gasPrice s' \<le> MAX_GAS_PRICE"
  using assms
  by (cases c)
    (auto simp: call_defs modifier_defs arith_defs emit_def record_call_def Let_def
      split: if_splits sum.splits call_outcome.splits)

lemma reachable_params:
  "reachable s \<Longrightarrow> 100 \<le> relayerFeeMultiplier s \<and> relayerFeeMultiplier s \<le> 150
       \<and> MIN_GAS_PRICE \<le> gasPrice s \<and> gasPrice s \<le> MAX_GAS_PRICE"
proof (induction rule: reachable.induct)
  case (deployed e w s)
  then show ?case by (auto simp: constructor_def const_defs split: if_splits)
next
  case (step s e c)
  show ?case
  proof (cases "dispatch e c s")
    case (Inl err)
    with step.IH show ?thesis by (simp add: transact_def)
  next
    case (Inr s')
    from dispatch_preserves_params [OF Inr step.IH] Inr show ?thesis
      by (simp add: transact_def)
  qed
qed





subsection \<open>What an accepted compensation does\<close>

lemma compensateRelayer_accepted:
  assumes "compensateRelayer e relayer gasUsed s = Inr s'"
  shows "relayerBalances s' relayer =
           relayerBalances s relayer + gasPrice s * gasUsed * relayerFeeMultiplier s div 100"
    and "events s' = events s
           @ (if timestamp e \<ge> lastDailyReset s + ONE_DAY then [DailyLimitReset (timestamp e)] else [])
           @ [RelayerCompensated relayer (gasPrice s * gasUsed * relayerFeeMultiplier s div 100)]"
  using assms
  by (auto simp: compensateRelayer_def compensateRelayer_body_def resetDailyLimit_def
      modifier_defs arith_defs emit_def Let_def split: if_splits sum.splits)

text \<open>
  Claim C3. Every accepted call \<open>compensateRelayer(relayer, gasUsed)\<close> credits the relayer
  with exactly \<open>gasPrice * gasUsed * relayerFeeMultiplier / 100\<close> (integer division) and
  ends by emitting \<open>RelayerCompensated\<close> with that amount; with a price of 100 gwei, a
  multiplier of 110 and 50000 gas the balance grows by exactly 5500000000000000.
\<close>

theorem compensateRelayer_credits_exact_amount:
  assumes "compensateRelayer e relayer gasUsed s = Inr s'"
  shows "relayerBalances s' relayer =
           relayerBalances s relayer + gasPrice s * gasUsed * relayerFeeMultiplier s div 100
       \<and> last (events s') =
           RelayerCompensated relayer (gasPrice s * gasUsed * relayerFeeMultiplier s div 100)
       \<and> (gasPrice s = 100 * gwei \<and> relayerFeeMultiplier s = 110 \<and> gasUsed = 50000
            \<longrightarrow> relayerBalances s' relayer = relayerBalances s relayer + 5500000000000000)"
  using compensateRelayer_accepted [OF assms] by (simp add: gwei_def)

theorem compensateRelayer_credits_exact_amount_witness:
  "compensateRelayer owner_env 5 50000 deployed_state = Inr compensated_state
   \<and> relayerBalances compensated_state 5 = 5500000000000000
   \<and> last (events compensated_state) = RelayerCompensated 5 5500000000000000"
  using compensateRelayer_credits_exact_amount [OF compensated_state_eq] compensated_state_eq
  by (simp add: deployed_state_def gwei_def)

subsection \<open>The fee multiplier\<close>

lemma estimateGasFee_eq:
  assumes "0 < relayerFeeMultiplier s"
  shows "estimateGasFee s gasLimit =
     (if gasPrice s * gasLimit * relayerFeeMultiplier s \<le> MAX_UINT256
      then Inr (gasPrice s * gasLimit * relayerFeeMultiplier s div 100) else Inl (Panic 17))"
proof -
  have "gasPrice s * gasLimit \<le> gasPrice s * gasLimit * relayerFeeMultiplier s"
    using assms by simp
  then have "gasPrice s * gasLimit * relayerFeeMultiplier s \<le> MAX_UINT256
      \<Longrightarrow> gasPrice s * gasLimit \<le> MAX_UINT256"
    by (rule order_trans)
  then show ?thesis
    by (cases "gasPrice s * gasLimit * relayerFeeMultiplier s \<le> MAX_UINT256")
      (auto simp: estimateGasFee_def res_bind_def checked_mul_def)
qed

text \<open>
  Claim C8. Called by an admin, \<open>setRelayerFeeMultiplier\<close> accepts exactly the values from
  100 to 150. A smaller value reverts with the reason "Multiplier must be >= 100" and a
  larger one with "Multiplier must be <= 150"; so do 99 and 151, and the storage after
  those transactions is the storage before. The value 120 is accepted, and afterwards
  \<open>estimateGasFee\<close> computes with the multiplier 120.
\<close>

theorem setRelayerFeeMultiplier_range:
  assumes "roles s DEFAULT_ADMIN_ROLE (sender e)"
  shows "((\<exists>s'. setRelayerFeeMultiplier e m s = Inr s') \<longleftrightarrow> 100 \<le> m \<and> m \<le> 150)
    \<and> (m < 100 \<longrightarrow> setRelayerFeeMultiplier e m s = Inl (Revert ''Multiplier must be >= 100''))
    \<and> (150 < m \<longrightarrow> setRelayerFeeMultiplier e m s = Inl (Revert ''Multiplier must be <= 150''))
    \<and> setRelayerFeeMultiplier e 99 s = Inl (Revert ''Multiplier must be >= 100'')
    \<and> transact e (SetRelayerFeeMultiplier 99) s = s
    \<and> setRelayerFeeMultiplier e 151 s = Inl (Revert ''Multiplier must be <= 150'')
    \<and> transact e (SetRelayerFeeMultiplier 151) s = s
    \<and> setRelayerFeeMultiplier e 120 s = Inr (s\<lparr>relayerFeeMultiplier := 120\<rparr>)
    \<and> estimateGasFee (transact e (SetRelayerFeeMultiplier 120) s) gasLimit =
         (if gasPrice s * gasLimit * 120 \<le> MAX_UINT256
          then Inr (gasPrice s * gasLimit * 120 div 100) else Inl (Panic 17))"
  using assms
  by (simp add: setRelayerFeeMultiplier_def onlyRole_def transact_def estimateGasFee_eq)

theorem setRelayerFeeMultiplier_range_witness:
  "roles deployed_state DEFAULT_ADMIN_ROLE (sender owner_env)
   \<and> setRelayerFeeMultiplier owner_env 99 deployed_state = Inl (Revert ''Multiplier must be >= 100'')
   \<and> setRelayerFeeMultiplier owner_env 151 deployed_state = Inl (Revert ''Multiplier must be <= 150'')
   \<and> relayerFeeMultiplier (transact owner_env (SetRelayerFeeMultiplier 99) deployed_state) = 110
   \<and> relayerFeeMultiplier (transact owner_env (SetRelayerFeeMultiplier 151) deployed_state) = 110
   \<and> relayerFeeMultiplier (transact owner_env (SetRelayerFeeMultiplier 120) deployed_state) = 120
   \<and> estimateGasFee (transact owner_env (SetRelayerFeeMultiplier 120) deployed_state) 50000
       = Inr 6000000000000000"
proof -
  have h: "roles deployed_state DEFAULT_ADMIN_ROLE (sender owner_env)"
    by (simp add: deployed_state_def owner_env_def)
  have m: "relayerFeeMultiplier deployed_state = 110" "gasPrice deployed_state = 100 * gwei"
    by (simp_all add: deployed_state_def)
  note t = setRelayerFeeMultiplier_range [OF h, of 120 50000]
  have a: "transact owner_env (SetRelayerFeeMultiplier 99) deployed_state = deployed_state"
    "transact owner_env (SetRelayerFeeMultiplier 151) deployed_state = deployed_state"
    using t by simp_all
  have b: "transact owner_env (SetRelayerFeeMultiplier 120) deployed_state
             = deployed_state\<lparr>relayerFeeMultiplier := 120\<rparr>"
    using t by (simp add: transact_def)
  have c: "estimateGasFee (transact owner_env (SetRelayerFeeMultiplier 120) deployed_state) 50000
             = Inr 6000000000000000"
    using t m by (simp add: gwei_def MAX_UINT256_def)
  show ?thesis
    using h t a c m by (simp add: b)
qed

subsection \<open>The daily circuit breaker\<close>



subsection \<open>The relayer balances and their total\<close>

text \<open>
  Claim C10. In every reachable storage \<open>totalRelayerBalance\<close> is the sum of
  \<open>relayerBalances\<close> over all addresses. An accepted \<open>compensateRelayer\<close> adds the same
  amount to the relayer's balance and to the total, an accepted \<open>withdrawRelayerBalance\<close>
  takes the caller's whole balance from both, and every transaction, of any function and
  whether it reverts or not, takes a storage where the equation holds to one where it
  holds.
\<close>

theorem balance_sum_invariant:
  "(reachable s \<longrightarrow> totalRelayerBalance s = sum (relayerBalances s) UNIV)
 \<and> (compensateRelayer e relayer gasUsed sa = Inr sb \<longrightarrow>
      relayerBalances sb = (relayerBalances sa)
        (relayer := relayerBalances sa relayer
                      + gasPrice sa * gasUsed * relayerFeeMultiplier sa div 100)
    \<and> totalRelayerBalance sb =
        totalRelayerBalance sa + gasPrice sa * gasUsed * relayerFeeMultiplier sa div 100)
 \<and> (withdrawRelayerBalance e' sc = Inr sd \<longrightarrow>
      relayerBalances sd = (relayerBalances sc)
        (sender e' := relayerBalances sc (sender e') - relayerBalances sc (sender e'))
    \<and> relayerBalances sc (sender e') \<le> totalRelayerBalance sc
    \<and> totalRelayerBalance sd = totalRelayerBalance sc - relayerBalances sc (sender e'))
 \<and> (totalRelayerBalance t = sum (relayerBalances t) UNIV \<longrightarrow>
      totalRelayerBalance (transact ev c t) = sum (relayerBalances (transact ev c t)) UNIV)"
proof (intro conjI impI)
  assume "reachable s"
  then show "totalRelayerBalance s = sum (relayerBalances s) UNIV" by (rule reachable_sum)
next
  assume a: "compensateRelayer e relayer gasUsed sa = Inr sb"
  from compensateRelayer_effect [OF a]
  show "relayerBalances sb = (relayerBalances sa)
        (relayer := relayerBalances sa relayer
                      + gasPrice sa * gasUsed * relayerFeeMultiplier sa div 100)"
    and "totalRelayerBalance sb =
        totalRelayerBalance sa + gasPrice sa * gasUsed * relayerFeeMultiplier sa div 100"
    by auto
next
  assume a: "withdrawRelayerBalance e' sc = Inr sd"
  from withdrawRelayerBalance_effect [OF a]
  show "relayerBalances sd = (relayerBalances sc)
        (sender e' := relayerBalances sc (sender e') - relayerBalances sc (sender e'))"
    and "relayerBalances sc (sender e') \<le> totalRelayerBalance sc"
    and "totalRelayerBalance sd = totalRelayerBalance sc - relayerBalances sc (sender e')"
    by simp_all
next
  assume a: "totalRelayerBalance t = sum (relayerBalances t) UNIV"
  show "totalRelayerBalance (transact ev c t) = sum (relayerBalances (transact ev c t)) UNIV"
  proof (cases "dispatch ev c t")
    case (Inl err)
    with a show ?thesis by (simp add: transact_def)
  next
    case (Inr t')
    from dispatch_preserves_sum [OF Inr a] Inr show ?thesis by (simp add: transact_def)
  qed
qed

theorem balance_sum_invariant_witness:
  "reachable compensated_state
 \<and> totalRelayerBalance compensated_state = sum (relayerBalances compensated_state) UNIV
 \<and> compensateRelayer owner_env 5 50000 deployed_state = Inr compensated_state
 \<and> relayerBalances compensated_state 5 = relayerBalances deployed_state 5 + 5500000000000000
 \<and> totalRelayerBalance compensated_state = totalRelayerBalance deployed_state + 5500000000000000
 \<and> withdrawRelayerBalance relayer_env compensated_state = Inr withdrawn_state
 \<and> relayerBalances withdrawn_state 5 = 0
 \<and> totalRelayerBalance withdrawn_state = 0
 \<and> totalRelayerBalance withdrawn_state = sum (relayerBalances withdrawn_state) UNIV"
proof -
  note t = balance_sum_invariant [where s = compensated_state and e = owner_env
      and relayer = 5 and gasUsed = 50000 and sa = deployed_state and sb = compensated_state
      and e' = relayer_env and sc = compensated_state and sd = withdrawn_state
      and t = compensated_state and ev = relayer_env and c = WithdrawRelayerBalance]
  have 1: "totalRelayerBalance compensated_state = sum (relayerBalances compensated_state) UNIV"
    using t reachable_compensated_state by simp
  have 2: "relayerBalances compensated_state 5 = relayerBalances deployed_state 5 + 5500000000000000"
    "totalRelayerBalance compensated_state = totalRelayerBalance deployed_state + 5500000000000000"
    using t compensated_state_eq by (simp_all add: deployed_state_def const_defs)
  have 3: "relayerBalances withdrawn_state 5 = 0" "totalRelayerBalance withdrawn_state = 0"
    using t withdrawn_state_eq compensated_state_fields by (simp_all add: relayer_env_def)
  have 4: "totalRelayerBalance withdrawn_state = sum (relayerBalances withdrawn_state) UNIV"
    using t 1 unfolding withdrawn_state_def by simp
  show ?thesis
    using 1 2 3 4 reachable_compensated_state compensated_state_eq withdrawn_state_eq by simp
qed

text \<open>
  Claim C4. In a reachable storage that is not paused, \<open>withdrawRelayerBalance\<close> reverts
  with \<open>InsufficientBalance(0, 0)\<close> when the caller's balance is zero and with
  \<open>InsufficientBalance(balance, contractBalance)\<close> when the token balance of the contract
  is smaller than the caller's balance. Otherwise, when the token transfer returns true,
  the caller's balance is zero afterwards, the total is lower by exactly the prior balance
  and the transfer of that balance to the caller has been made; when the transfer returns
  false the call reverts with \<open>TransferFailed\<close>, and when it reverts so does the call.
  After every rejected call the storage is the storage before.
\<close>

theorem withdrawRelayerBalance_behaviour:
  assumes "reachable s" and "\<not> paused s"
  shows "(relayerBalances s (sender e) = 0 \<longrightarrow>
            withdrawRelayerBalance e s = Inl (InsufficientBalance 0 0))
   \<and> (relayerBalances s (sender e) \<noteq> 0
        \<and> tokenBalanceOfThis e (wdoge s) < relayerBalances s (sender e) \<longrightarrow>
        withdrawRelayerBalance e s =
          Inl (InsufficientBalance (relayerBalances s (sender e)) (tokenBalanceOfThis e (wdoge s))))
   \<and> (relayerBalances s (sender e) \<noteq> 0
        \<and> relayerBalances s (sender e) \<le> tokenBalanceOfThis e (wdoge s) \<longrightarrow>
        (callOutcome e = Returns True \<longrightarrow>
           withdrawRelayerBalance e s =
             Inr (s\<lparr>relayerBalances := (relayerBalances s)(sender e := 0),
                     totalRelayerBalance := totalRelayerBalance s - relayerBalances s (sender e),
                     calls := calls s @ [TokenTransfer (wdoge s) (sender e)
                                           (relayerBalances s (sender e))]\<rparr>)
           \<and> relayerBalances s (sender e) \<le> totalRelayerBalance s)
      \<and> (callOutcome e = Returns False \<longrightarrow> withdrawRelayerBalance e s = Inl TransferFailed)
      \<and> (callOutcome e = Reverts \<longrightarrow> withdrawRelayerBalance e s = Inl ExternalCallReverted))
   \<and> ((\<exists>err. withdrawRelayerBalance e s = Inl err) \<longrightarrow>
        transact e WithdrawRelayerBalance s = s)"
proof -
  have ne: "\<not> entered s" using assms(1) by (rule reachable_not_entered)
  have "totalRelayerBalance s = sum (relayerBalances s) UNIV"
    using assms(1) by (rule reachable_sum)
  then have le: "relayerBalances s (sender e) \<le> totalRelayerBalance s"
    using balance_le_sum [of "relayerBalances s" "sender e"] by simp
  show ?thesis
    using ne le assms(2)
    by (auto simp: withdrawRelayerBalance_def withdrawRelayerBalance_body_def transact_def
        modifier_defs arith_defs record_call_def Let_def)
qed


theorem withdrawRelayerBalance_behaviour_witness:
  "withdrawRelayerBalance owner_env deployed_state = Inl (InsufficientBalance 0 0)
 \<and> withdrawRelayerBalance (relayer_env\<lparr>tokenBalanceOfThis := (\<lambda>_. 1000)\<rparr>) compensated_state
      = Inl (InsufficientBalance 5500000000000000 1000)
 \<and> withdrawRelayerBalance relayer_env compensated_state
      = Inr (compensated_state\<lparr>relayerBalances := (relayerBalances compensated_state)(5 := 0),
               totalRelayerBalance := 0,
               calls := [TokenTransfer 2 5 5500000000000000]\<rparr>)
 \<and> withdrawRelayerBalance (relayer_env\<lparr>callOutcome := Returns False\<rparr>) compensated_state
      = Inl TransferFailed
 \<and> transact (relayer_env\<lparr>callOutcome := Returns False\<rparr>) WithdrawRelayerBalance compensated_state
      = compensated_state"
proof -
  have d: "\<not> paused deployed_state" by (simp add: deployed_state_def)
  have c: "\<not> paused compensated_state" by (simp add: compensated_state_fields)
  have 1: "withdrawRelayerBalance owner_env deployed_state = Inl (InsufficientBalance 0 0)"
    using withdrawRelayerBalance_behaviour [OF reachable_deployed_state d, of owner_env]
    by (simp add: deployed_state_def owner_env_def)
  have 2: "withdrawRelayerBalance (relayer_env\<lparr>tokenBalanceOfThis := (\<lambda>_. 1000)\<rparr>) compensated_state
      = Inl (InsufficientBalance 5500000000000000 1000)"
    using withdrawRelayerBalance_behaviour [OF reachable_compensated_state c,
        of "relayer_env\<lparr>tokenBalanceOfThis := (\<lambda>_. 1000)\<rparr>"]
    by (simp add: compensated_state_fields relayer_env_def)
  have 3: "withdrawRelayerBalance relayer_env compensated_state
      = Inr (compensated_state\<lparr>relayerBalances := (relayerBalances compensated_state)(5 := 0),
               totalRelayerBalance := 0,
               calls := [TokenTransfer 2 5 5500000000000000]\<rparr>)"
    using withdrawRelayerBalance_behaviour [OF reachable_compensated_state c, of relayer_env]
    by (simp add: compensated_state_fields relayer_env_def const_defs)
  note t = withdrawRelayerBalance_behaviour [OF reachable_compensated_state c,
        of "relayer_env\<lparr>callOutcome := Returns False\<rparr>"]
  have 4: "withdrawRelayerBalance (relayer_env\<lparr>callOutcome := Returns False\<rparr>) compensated_state
      = Inl TransferFailed"
    using t by (simp add: compensated_state_fields relayer_env_def const_defs)
  have 5: "transact (relayer_env\<lparr>callOutcome := Returns False\<rparr>) WithdrawRelayerBalance
             compensated_state = compensated_state"
    using t 4 by simp
  show ?thesis using 1 2 3 4 5 by simp
qed

subsection \<open>The gates of the gas price update\<close>

lemma contract_deviation_floor:
  assumes "0 < old"
  shows "int (contract_deviation old new) = \<lfloor>spec_deviation old new\<rfloor>"
proof -
  have "spec_deviation old new
          = of_nat ((if new > old then new - old else old - new) * 100) / of_nat old"
    by (simp add: spec_deviation_def)
  then show ?thesis
    by (simp only: contract_deviation_def floor_divide_of_nat_eq)
qed

text \<open>
  What \<open>updateGasPrice\<close> does in a reachable storage, for a caller with the oracle role
  and the contract not paused: a call before \<open>gasPriceLastUpdated + 1 hour\<close> reverts with
  "Too soon to update"; otherwise a price outside \<open>[MIN_GAS_PRICE, MAX_GAS_PRICE]\<close> reverts
  with \<open>InvalidGasPrice\<close>; otherwise the contract compares the truncated quotient
  \<open>|new - old| * 100 div old\<close>, the integer part of the exact percentage, with its
  thresholds: above 50 the call reverts with \<open>SuspiciousPriceMovement\<close>, from 31 to 50 the
  update is applied after \<open>PriceDeviationDetected\<close> is emitted, and up to 30 it is applied
  with no alert. An applied update sets \<open>gasPrice\<close> and \<open>gasPriceLastUpdated\<close> and emits
  \<open>GasPriceUpdated\<close>; after a rejected call the storage is the storage before.
\<close>

lemma updateGasPrice_gates:
  assumes "reachable s" and "roles s ORACLE_ROLE (sender e)" and "\<not> paused s"
    and "gasPriceLastUpdated s + GAS_PRICE_UPDATE_INTERVAL \<le> MAX_UINT256"
  shows "(timestamp e < gasPriceLastUpdated s + GAS_PRICE_UPDATE_INTERVAL \<longrightarrow>
            updateGasPrice e s = Inl (Revert ''Too soon to update''))
   \<and> (gasPriceLastUpdated s + GAS_PRICE_UPDATE_INTERVAL \<le> timestamp e \<longrightarrow>
        ((txGasPrice e < MIN_GAS_PRICE \<or> MAX_GAS_PRICE < txGasPrice e) \<longrightarrow>
            updateGasPrice e s = Inl (InvalidGasPrice (txGasPrice e)))
      \<and> (MIN_GAS_PRICE \<le> txGasPrice e \<and> txGasPrice e \<le> MAX_GAS_PRICE \<longrightarrow>
          (50 < contract_deviation (gasPrice s) (txGasPrice e) \<longrightarrow>
             updateGasPrice e s = Inl (SuspiciousPriceMovement (gasPrice s) (txGasPrice e)))
        \<and> (30 < contract_deviation (gasPrice s) (txGasPrice e)
             \<and> contract_deviation (gasPrice s) (txGasPrice e) \<le> 50 \<longrightarrow>
             updateGasPrice e s =
               Inr (s\<lparr>gasPrice := txGasPrice e, gasPriceLastUpdated := timestamp e,
                       events := events s @
                         [PriceDeviationDetected (gasPrice s) (txGasPrice e)
                            (contract_deviation (gasPrice s) (txGasPrice e)),
                          GasPriceUpdated (txGasPrice e) (timestamp e)]\<rparr>))
        \<and> (contract_deviation (gasPrice s) (txGasPrice e) \<le> 30 \<longrightarrow>
             updateGasPrice e s =
               Inr (s\<lparr>gasPrice := txGasPrice e, gasPriceLastUpdated := timestamp e,
                       events := events s @ [GasPriceUpdated (txGasPrice e) (timestamp e)]\<rparr>))))
   \<and> ((\<exists>err. updateGasPrice e s = Inl err) \<longrightarrow> transact e UpdateGasPrice s = s)
   \<and> int (contract_deviation (gasPrice s) (txGasPrice e))
        = \<lfloor>spec_deviation (gasPrice s) (txGasPrice e)\<rfloor>"
proof -
  from reachable_params [OF assms(1)]
  have g: "MIN_GAS_PRICE \<le> gasPrice s" "gasPrice s \<le> MAX_GAS_PRICE" by simp_all
  then have pos: "0 < gasPrice s" by (simp add: const_defs)
  have fl: "int (contract_deviation (gasPrice s) (txGasPrice e))
        = \<lfloor>spec_deviation (gasPrice s) (txGasPrice e)\<rfloor>"
    using pos by (rule contract_deviation_floor)
  have rej: "(\<exists>err. updateGasPrice e s = Inl err) \<longrightarrow> transact e UpdateGasPrice s = s"
    by (auto simp: transact_def)
  have soon: "timestamp e < gasPriceLastUpdated s + GAS_PRICE_UPDATE_INTERVAL \<longrightarrow>
            updateGasPrice e s = Inl (Revert ''Too soon to update'')"
    using assms
    by (simp add: updateGasPrice_def updateGasPrice_body_def modifier_defs arith_defs)
  have inv: "gasPriceLastUpdated s + GAS_PRICE_UPDATE_INTERVAL \<le> timestamp e \<longrightarrow>
        (txGasPrice e < MIN_GAS_PRICE \<or> MAX_GAS_PRICE < txGasPrice e) \<longrightarrow>
            updateGasPrice e s = Inl (InvalidGasPrice (txGasPrice e))"
    using assms
    by (auto simp: updateGasPrice_def updateGasPrice_body_def modifier_defs arith_defs Let_def)
  have body: "gasPriceLastUpdated s + GAS_PRICE_UPDATE_INTERVAL \<le> timestamp e \<Longrightarrow>
      MIN_GAS_PRICE \<le> txGasPrice e \<Longrightarrow> txGasPrice e \<le> MAX_GAS_PRICE \<Longrightarrow>
      updateGasPrice e s =
        (if 50 < contract_deviation (gasPrice s) (txGasPrice e)
         then Inl (SuspiciousPriceMovement (gasPrice s) (txGasPrice e))
         else if 30 < contract_deviation (gasPrice s) (txGasPrice e)
         then Inr (s\<lparr>gasPrice := txGasPrice e, gasPriceLastUpdated := timestamp e,
                       events := events s @
                         [PriceDeviationDetected (gasPrice s) (txGasPrice e)
                            (contract_deviation (gasPrice s) (txGasPrice e)),
                          GasPriceUpdated (txGasPrice e) (timestamp e)]\<rparr>)
         else Inr (s\<lparr>gasPrice := txGasPrice e, gasPriceLastUpdated := timestamp e,
                       events := events s @ [GasPriceUpdated (txGasPrice e) (timestamp e)]\<rparr>))"
  proof -
    assume t: "gasPriceLastUpdated s + GAS_PRICE_UPDATE_INTERVAL \<le> timestamp e"
      and lo: "MIN_GAS_PRICE \<le> txGasPrice e" and hi: "txGasPrice e \<le> MAX_GAS_PRICE"
    have "(if txGasPrice e > gasPrice s then txGasPrice e - gasPrice s
           else gasPrice s - txGasPrice e) \<le> MAX_GAS_PRICE"
      using g hi by auto
    then have m: "(if txGasPrice e > gasPrice s then txGasPrice e - gasPrice s
           else gasPrice s - txGasPrice e) * 100 \<le> MAX_UINT256"
      by (simp add: MAX_GAS_PRICE_def gwei_def MAX_UINT256_def)
    show ?thesis
      using assms t lo hi pos m
      by (simp add: updateGasPrice_def updateGasPrice_body_def modifier_defs arith_defs
          emit_def Let_def contract_deviation_def MAX_PRICE_DEVIATION_def)
  qed
  show ?thesis
    using soon inv rej fl body by simp
qed

lemma updateGasPrice_gates_examples:
  "updateGasPrice owner_env deployed_state = Inl (Revert ''Too soon to update'')
 \<and> transact owner_env UpdateGasPrice deployed_state = deployed_state
 \<and> updateGasPrice (update_env\<lparr>txGasPrice := 600000000000\<rparr>) deployed_state
      = Inl (InvalidGasPrice 600000000000)
 \<and> updateGasPrice (update_env\<lparr>txGasPrice := 151000000000\<rparr>) deployed_state
      = Inl (SuspiciousPriceMovement 100000000000 151000000000)
 \<and> updateGasPrice update_env deployed_state
      = Inr (deployed_state\<lparr>gasPrice := 150500000000, gasPriceLastUpdated := 1700003600,
               events := [PriceDeviationDetected 100000000000 150500000000 50,
                          GasPriceUpdated 150500000000 1700003600]\<rparr>)
 \<and> updateGasPrice (update_env\<lparr>txGasPrice := 130500000000\<rparr>) deployed_state
      = Inr (deployed_state\<lparr>gasPrice := 130500000000, gasPriceLastUpdated := 1700003600,
               events := [GasPriceUpdated 130500000000 1700003600]\<rparr>)"
proof -
  have np: "\<not> paused deployed_state" by (simp add: deployed_state_def)
  have rg: "gasPriceLastUpdated deployed_state + GAS_PRICE_UPDATE_INTERVAL \<le> MAX_UINT256"
    by (simp add: deployed_state_def const_defs max_uint256_numeral)
  have ro: "roles deployed_state ORACLE_ROLE (sender owner_env)"
    by (simp add: deployed_state_def owner_env_def)
  have ru: "roles deployed_state ORACLE_ROLE (sender (update_env\<lparr>txGasPrice := p\<rparr>))" for p
    by (simp add: deployed_state_def update_env_def owner_env_def)
  have ru': "roles deployed_state ORACLE_ROLE (sender update_env)"
    by (simp add: deployed_state_def update_env_def owner_env_def)
  note defs = contract_deviation_def deployed_state_def update_env_def owner_env_def const_defs
  note a = updateGasPrice_gates [OF reachable_deployed_state ro np rg]
  have 1: "updateGasPrice owner_env deployed_state = Inl (Revert ''Too soon to update'')"
    using a by (simp add: defs)
  have 2: "transact owner_env UpdateGasPrice deployed_state = deployed_state"
    using a 1 by simp
  have 3: "updateGasPrice (update_env\<lparr>txGasPrice := 600000000000\<rparr>) deployed_state
      = Inl (InvalidGasPrice 600000000000)"
    using updateGasPrice_gates [OF reachable_deployed_state ru np rg, of 600000000000]
    by (simp add: defs)
  have 4: "updateGasPrice (update_env\<lparr>txGasPrice := 151000000000\<rparr>) deployed_state
      = Inl (SuspiciousPriceMovement 100000000000 151000000000)"
    using updateGasPrice_gates [OF reachable_deployed_state ru np rg, of 151000000000]
    by (simp add: defs)
  have 5: "updateGasPrice update_env deployed_state
      = Inr (deployed_state\<lparr>gasPrice := 150500000000, gasPriceLastUpdated := 1700003600,
               events := [PriceDeviationDetected 100000000000 150500000000 50,
                          GasPriceUpdated 150500000000 1700003600]\<rparr>)"
    using updateGasPrice_gates [OF reachable_deployed_state ru' np rg]
    by (simp add: defs)
  have 6: "updateGasPrice (update_env\<lparr>txGasPrice := 130500000000\<rparr>) deployed_state
      = Inr (deployed_state\<lparr>gasPrice := 130500000000, gasPriceLastUpdated := 1700003600,
               events := [GasPriceUpdated 130500000000 1700003600]\<rparr>)"
    using updateGasPrice_gates [OF reachable_deployed_state ru np rg, of 130500000000]
    by (simp add: defs)
  show ?thesis using 1 2 3 4 5 6 by simp
qed

text \<open>
  Claim C2. The claim, like the comment on \<open>MAX_PRICE_DEVIATION\<close> ("50% maximum
  deviation"), has every update that deviates from the stored price by more than 50
  percent rejected with \<open>SuspiciousPriceMovement\<close>. The contract does not do that: one
  hour after the deployment, with the stored price at 100 gwei, an observed price of 150.5
  gwei deviates by 50.5 percent and one of 150.999999999 gwei by almost 51 percent, and
  both updates are applied, each with an alert that reports a deviation of 50, because
  the division that computes the percentage truncates.
\<close>

theorem updateGasPrice_applies_deviation_above_50:
  "MAX_PRICE_DEVIATION = 50
   \<and> gasPrice deployed_state = 100000000000
   \<and> 50 < spec_deviation (gasPrice deployed_state) (txGasPrice update_env)
   \<and> updateGasPrice update_env deployed_state =
       Inr (deployed_state\<lparr>gasPrice := 150500000000, gasPriceLastUpdated := 1700003600,
              events := [PriceDeviationDetected 100000000000 150500000000 50,
                         GasPriceUpdated 150500000000 1700003600]\<rparr>)
   \<and> 50 < spec_deviation (gasPrice deployed_state) 150999999999
   \<and> updateGasPrice (update_env\<lparr>txGasPrice := 150999999999\<rparr>) deployed_state =
       Inr (deployed_state\<lparr>gasPrice := 150999999999, gasPriceLastUpdated := 1700003600,
              events := [PriceDeviationDetected 100000000000 150999999999 50,
                         GasPriceUpdated 150999999999 1700003600]\<rparr>)"
  by (simp add: spec_deviation_def updateGasPrice_def updateGasPrice_body_def modifier_defs
      arith_defs max_uint256_numeral emit_def Let_def update_env_def owner_env_def
      deployed_state_def const_defs)

subsection \<open>The fee estimate\<close>

lemma withdrawRelayerBalance_frame:
  "gasPrice (transact e WithdrawRelayerBalance s) = gasPrice s
 \<and> relayerFeeMultiplier (transact e WithdrawRelayerBalance s) = relayerFeeMultiplier s"
  by (auto simp: transact_def withdrawRelayerBalance_def withdrawRelayerBalance_body_def
      modifier_defs arith_defs record_call_def Let_def split: sum.splits call_outcome.splits)

lemma estimateGasFee_cong:
  "gasPrice sa = gasPrice sb \<Longrightarrow> relayerFeeMultiplier sa = relayerFeeMultiplier sb
     \<Longrightarrow> estimateGasFee sa g = estimateGasFee sb g"
  by (simp add: estimateGasFee_def)

text \<open>
  Claim C7, as far as it holds. \<open>estimateGasFee\<close> is a view function: it reads
  \<open>gasPrice\<close> and \<open>relayerFeeMultiplier\<close> and returns a value, no storage. In a reachable
  storage it returns exactly \<open>gasPrice * gasLimit * relayerFeeMultiplier / 100\<close> when the
  product is within 256 bits, and reverts with \<open>Panic(0x11)\<close> when it is not. Two storages
  with the same price and multiplier give the same result, and a
  \<open>withdrawRelayerBalance\<close> transaction changes neither of the two, so the estimate after
  it is the estimate before.
\<close>

theorem estimateGasFee_pure:
  "(reachable s \<longrightarrow>
      estimateGasFee s gasLimit =
        (if gasPrice s * gasLimit * relayerFeeMultiplier s \<le> MAX_UINT256
         then Inr (gasPrice s * gasLimit * relayerFeeMultiplier s div 100)
         else Inl (Panic 17)))
 \<and> (gasPrice sa = gasPrice sb \<and> relayerFeeMultiplier sa = relayerFeeMultiplier sb \<longrightarrow>
      estimateGasFee sa g = estimateGasFee sb g)
 \<and> gasPrice (transact e WithdrawRelayerBalance t) = gasPrice t
 \<and> relayerFeeMultiplier (transact e WithdrawRelayerBalance t) = relayerFeeMultiplier t
 \<and> estimateGasFee (transact e WithdrawRelayerBalance t) g' = estimateGasFee t g'"
proof (intro conjI impI)
  assume r: "reachable s"
  from reachable_params [OF r] have "0 < relayerFeeMultiplier s" by simp
  then show "estimateGasFee s gasLimit =
        (if gasPrice s * gasLimit * relayerFeeMultiplier s \<le> MAX_UINT256
         then Inr (gasPrice s * gasLimit * relayerFeeMultiplier s div 100)
         else Inl (Panic 17))"
    by (rule estimateGasFee_eq)
next
  assume "gasPrice sa = gasPrice sb \<and> relayerFeeMultiplier sa = relayerFeeMultiplier sb"
  then show "estimateGasFee sa g = estimateGasFee sb g"
    by (intro estimateGasFee_cong) simp_all
next
  show "gasPrice (transact e WithdrawRelayerBalance t) = gasPrice t"
    and "relayerFeeMultiplier (transact e WithdrawRelayerBalance t) = relayerFeeMultiplier t"
    using withdrawRelayerBalance_frame [of e t] by simp_all
  then show "estimateGasFee (transact e WithdrawRelayerBalance t) g' = estimateGasFee t g'"
    by (rule estimateGasFee_cong)
qed

theorem estimateGasFee_pure_witness:
  "reachable compensated_state
 \<and> estimateGasFee compensated_state 50000 = Inr 5500000000000000
 \<and> estimateGasFee withdrawn_state 50000 = Inr 5500000000000000"
proof -
  note t = estimateGasFee_pure [where s = compensated_state and gasLimit = 50000
      and sa = withdrawn_state and sb = compensated_state and g = 50000
      and e = relayer_env and t = compensated_state and g' = 50000]
  have f: "gasPrice compensated_state = 100 * gwei" "relayerFeeMultiplier compensated_state = 110"
    by (simp_all add: compensated_state_def transact_def compensateRelayer_def
      compensateRelayer_body_def resetDailyLimit_def modifier_defs arith_defs MAX_UINT256_def
      emit_def Let_def owner_env_def deployed_state_def const_defs)
  have 1: "estimateGasFee compensated_state 50000 = Inr 5500000000000000"
    using t reachable_compensated_state f by (simp add: gwei_def max_uint256_numeral)
  have 2: "estimateGasFee withdrawn_state 50000 = estimateGasFee compensated_state 50000"
    using t unfolding withdrawn_state_def by simp
  show ?thesis using 1 2 reachable_compensated_state by simp
qed

text \<open>
  Claim C7 as stated fails where the product overflows: for the largest \<open>uint256\<close> as gas
  limit the call reverts and returns no fee.
\<close>

theorem estimateGasFee_overflow_counterexample:
  "estimateGasFee deployed_state MAX_UINT256 = Inl (Panic 17)"
  by (simp add: estimateGasFee_def arith_defs max_uint256_numeral deployed_state_def const_defs)

subsection \<open>Pausing\<close>

text \<open>
  Claim C6, as far as it holds. In a reachable storage that is paused, \<open>updateGasPrice\<close>,
  \<open>compensateRelayer\<close> and \<open>withdrawRelayerBalance\<close> are rejected and the storage after the
  transaction is the storage before; the error is "Pausable: paused" whenever the caller
  holds the role the function asks for (the role check comes first). \<open>setRelayerFeeMultiplier\<close>
  carries no pause check: an admin sets any multiplier from 100 to 150 while the contract
  is paused. \<open>emergencyWithdraw\<close> succeeds only in a paused storage.
\<close>

theorem pause_gating:
  assumes "reachable s" and "paused s"
  shows "(\<exists>err. updateGasPrice e s = Inl err)
    \<and> transact e UpdateGasPrice s = s
    \<and> (roles s ORACLE_ROLE (sender e) \<longrightarrow>
         updateGasPrice e s = Inl (Revert ''Pausable: paused''))
    \<and> (\<exists>err. compensateRelayer e relayer gasUsed s = Inl err)
    \<and> transact e (CompensateRelayer relayer gasUsed) s = s
    \<and> (roles s RELAYER_ROLE (sender e) \<longrightarrow>
         compensateRelayer e relayer gasUsed s = Inl (Revert ''Pausable: paused''))
    \<and> withdrawRelayerBalance e s = Inl (Revert ''Pausable: paused'')
    \<and> transact e WithdrawRelayerBalance s = s
    \<and> (roles s DEFAULT_ADMIN_ROLE (sender e) \<and> 100 \<le> m \<and> m \<le> 150 \<longrightarrow>
         setRelayerFeeMultiplier e m s = Inr (s\<lparr>relayerFeeMultiplier := m\<rparr>))
    \<and> (emergencyWithdraw e' token recipient sa = Inr sb \<longrightarrow> paused sa)
    \<and> (\<not> paused sa \<longrightarrow> (\<exists>err. emergencyWithdraw e' token recipient sa = Inl err))"
proof -
  have ne: "\<not> entered s" using assms(1) by (rule reachable_not_entered)
  have u: "(\<exists>err. updateGasPrice e s = Inl err) \<and> transact e UpdateGasPrice s = s
    \<and> (roles s ORACLE_ROLE (sender e) \<longrightarrow>
         updateGasPrice e s = Inl (Revert ''Pausable: paused''))"
    using assms(2) by (simp add: updateGasPrice_def modifier_defs transact_def)
  have c: "(\<exists>err. compensateRelayer e relayer gasUsed s = Inl err)
    \<and> transact e (CompensateRelayer relayer gasUsed) s = s
    \<and> (roles s RELAYER_ROLE (sender e) \<longrightarrow>
         compensateRelayer e relayer gasUsed s = Inl (Revert ''Pausable: paused''))"
    using assms(2) ne by (simp add: compensateRelayer_def modifier_defs transact_def res_bind_def)
  have w: "withdrawRelayerBalance e s = Inl (Revert ''Pausable: paused'')
    \<and> transact e WithdrawRelayerBalance s = s"
    using assms(2) ne by (simp add: withdrawRelayerBalance_def modifier_defs transact_def res_bind_def)
  have m: "roles s DEFAULT_ADMIN_ROLE (sender e) \<and> 100 \<le> m \<and> m \<le> 150 \<longrightarrow>
         setRelayerFeeMultiplier e m s = Inr (s\<lparr>relayerFeeMultiplier := m\<rparr>)"
    by (simp add: setRelayerFeeMultiplier_def onlyRole_def)
  have x: "emergencyWithdraw e' token recipient sa = Inr sb \<longrightarrow> paused sa"
    by (auto simp: emergencyWithdraw_def onlyRole_def split: if_splits)
  have y: "\<not> paused sa \<longrightarrow> (\<exists>err. emergencyWithdraw e' token recipient sa = Inl err)"
    by (simp add: emergencyWithdraw_def onlyRole_def)
  show ?thesis using u c w m x y by simp
qed

theorem pause_gating_witness:
  "reachable paused_state \<and> paused paused_state
 \<and> updateGasPrice update_env paused_state = Inl (Revert ''Pausable: paused'')
 \<and> compensateRelayer owner_env 5 50000 paused_state = Inl (Revert ''Pausable: paused'')
 \<and> transact owner_env (CompensateRelayer 5 50000) paused_state = paused_state
 \<and> withdrawRelayerBalance relayer_env paused_state = Inl (Revert ''Pausable: paused'')
 \<and> transact relayer_env WithdrawRelayerBalance paused_state = paused_state
 \<and> setRelayerFeeMultiplier owner_env 120 paused_state
      = Inr (paused_state\<lparr>relayerFeeMultiplier := 120\<rparr>)
 \<and> emergencyWithdraw owner_env 2 1 paused_state
      = Inr (paused_state\<lparr>events := events paused_state @ [EmergencyWithdrawal 2 1 1000000000000000000000],
                           calls := calls paused_state @ [TokenTransfer 2 1 1000000000000000000000]\<rparr>)
 \<and> emergencyWithdraw owner_env 2 1 compensated_state = Inl (Revert ''Must be paused'')"
proof -
  note p = paused_state_fields
  note t = pause_gating [OF reachable_paused_state p(1)]
  have 1: "updateGasPrice update_env paused_state = Inl (Revert ''Pausable: paused'')"
    using t [of update_env] by (simp add: p update_env_def owner_env_def)
  have 2: "compensateRelayer owner_env 5 50000 paused_state = Inl (Revert ''Pausable: paused'')"
    "transact owner_env (CompensateRelayer 5 50000) paused_state = paused_state"
    "setRelayerFeeMultiplier owner_env 120 paused_state
      = Inr (paused_state\<lparr>relayerFeeMultiplier := 120\<rparr>)"
    using t [of owner_env 5 50000 120] by (simp_all add: p owner_env_def)
  have 3: "withdrawRelayerBalance relayer_env paused_state = Inl (Revert ''Pausable: paused'')"
    "transact relayer_env WithdrawRelayerBalance paused_state = paused_state"
    using t [of relayer_env] by simp_all
  have 4: "emergencyWithdraw owner_env 2 1 paused_state
      = Inr (paused_state\<lparr>events := events paused_state @ [EmergencyWithdrawal 2 1 1000000000000000000000],
                           calls := calls paused_state @ [TokenTransfer 2 1 1000000000000000000000]\<rparr>)"
    by (simp add: emergencyWithdraw_def onlyRole_def p owner_env_def emit_def record_call_def
        Let_def const_defs)
  have 5: "emergencyWithdraw owner_env 2 1 compensated_state = Inl (Revert ''Must be paused'')"
    using t [where e' = owner_env and token = 2 and recipient = 1 and sa = compensated_state]
      compensated_state_fields
    by (auto simp: emergencyWithdraw_def onlyRole_def owner_env_def)
  show ?thesis using 1 2 3 4 5 reachable_paused_state p(1) by simp
qed

text \<open>
  Claim C6 as stated fails for \<open>setRelayerFeeMultiplier\<close>: in a paused storage the admin's
  call with 120 is accepted and changes the multiplier from 110 to 120.
\<close>

theorem setRelayerFeeMultiplier_while_paused_counterexample:
  "paused paused_state
   \<and> setRelayerFeeMultiplier owner_env 120 paused_state
       = Inr (paused_state\<lparr>relayerFeeMultiplier := 120\<rparr>)
   \<and> relayerFeeMultiplier paused_state = 110
   \<and> relayerFeeMultiplier (transact owner_env (SetRelayerFeeMultiplier 120) paused_state) = 120"
  by (simp add: paused_state_fields setRelayerFeeMultiplier_def onlyRole_def transact_def
      owner_env_def)

section \<open>Properties of the off-chain services\<close>

lemma string_of_nat_3: "string_of_nat 3 = ''3''"
  by simp

lemma read_message_exhausted:
  "\<exists>M. read_message (exhausted_error n c) = Inr M"
  by (cases c) (simp_all add: exhausted_error_def property_of_nothing_def)

lemma sendAlert_settled:
  "settled (sendAlert fetch am now ttl msg sev) =
     (if fetch (webhookUrl am) (alert_request am now ttl msg sev) = NeverSettles
      then Pending else Resolved ())"
  by (simp add: sendAlert_def try_catch_def Let_def split: fetch_outcome.splits)

lemma sendAlert_printed:
  "printed (sendAlert fetch am now ttl msg sev) =
     (case fetch (webhookUrl am) (alert_request am now ttl msg sev) of
        NetworkError err \<Rightarrow> [ErrorValue ''Error sending alert:'' err]
      | Thrown err \<Rightarrow> [ErrorValue ''Error sending alert:'' err]
      | Response ok statusText \<Rightarrow>
          if ok then [] else [ErrorText (''Failed to send alert: '' @ statusText)]
      | NeverSettles \<Rightarrow> [])"
  by (simp add: sendAlert_def try_catch_def Let_def split: fetch_outcome.splits)

lemma sendAlert_posted:
  "posted (sendAlert fetch am now ttl msg sev) =
     [(webhookUrl am, alert_request am now ttl msg sev)]"
  by (simp add: sendAlert_def try_catch_def Let_def split: fetch_outcome.splits prod.splits)

lemma retryWithBackoff_default:
  "retryWithBackoff operation defaultRetryOptions =
     (case operation 1 of
        Resolved v \<Rightarrow> \<lparr> outcome = Resolved v, invocations = 1, delays = [] \<rparr>
      | Pending \<Rightarrow> \<lparr> outcome = Pending, invocations = 1, delays = [] \<rparr>
      | Rejected e1 \<Rightarrow>
          (case operation 2 of
             Resolved v \<Rightarrow> \<lparr> outcome = Resolved v, invocations = 2, delays = [1000] \<rparr>
           | Pending \<Rightarrow> \<lparr> outcome = Pending, invocations = 2, delays = [1000] \<rparr>
           | Rejected e2 \<Rightarrow>
               (case operation 3 of
                  Resolved v \<Rightarrow> \<lparr> outcome = Resolved v, invocations = 3, delays = [1000, 2000] \<rparr>
                | Pending \<Rightarrow> \<lparr> outcome = Pending, invocations = 3, delays = [1000, 2000] \<rparr>
                | Rejected e3 \<Rightarrow>
                    \<lparr> outcome = Rejected (exhausted_error 3 e3),
                      invocations = 3, delays = [1000, 2000] \<rparr>)))"
proof -
  have 3: "retry_loop operation defaultRetryOptions 3 sl =
             (case operation 3 of
                  Resolved v \<Rightarrow> \<lparr> outcome = Resolved v, invocations = 3, delays = sl \<rparr>
                | Pending \<Rightarrow> \<lparr> outcome = Pending, invocations = 3, delays = sl \<rparr>
                | Rejected e3 \<Rightarrow>
                    \<lparr> outcome = Rejected (exhausted_error 3 e3),
                      invocations = 3, delays = sl \<rparr>)" for sl
    by (subst retry_loop.simps)
      (simp add: defaultRetryOptions_def split: promise.splits)
  have 2: "retry_loop operation defaultRetryOptions 2 sl =
             (case operation 2 of
                  Resolved v \<Rightarrow> \<lparr> outcome = Resolved v, invocations = 2, delays = sl \<rparr>
                | Pending \<Rightarrow> \<lparr> outcome = Pending, invocations = 2, delays = sl \<rparr>
                | Rejected e2 \<Rightarrow> retry_loop operation defaultRetryOptions 3 (sl @ [2000]))" for sl
    by (subst retry_loop.simps)
      (simp add: defaultRetryOptions_def numeral_3_eq_3 split: promise.splits)
  have 1: "retry_loop operation defaultRetryOptions 1 sl =
             (case operation 1 of
                  Resolved v \<Rightarrow> \<lparr> outcome = Resolved v, invocations = 1, delays = sl \<rparr>
                | Pending \<Rightarrow> \<lparr> outcome = Pending, invocations = 1, delays = sl \<rparr>
                | Rejected e2 \<Rightarrow> retry_loop operation defaultRetryOptions 2 (sl @ [1000]))" for sl
    by (subst retry_loop.simps)
      (simp add: defaultRetryOptions_def numeral_2_eq_2 split: promise.splits)
  show ?thesis
    unfolding retryWithBackoff_def 1 2 3 by (simp split: promise.splits)
qed

lemma retry_loop_invocations:
  "1 \<le> attempt \<Longrightarrow> attempt \<le> maxAttempts options \<Longrightarrow>
     attempt \<le> invocations (retry_loop operation options attempt sl)
   \<and> invocations (retry_loop operation options attempt sl) \<le> maxAttempts options"
proof (induction operation options attempt sl rule: retry_loop.induct)
  case (1 operation options attempt sl)
  show ?case
  proof (cases "operation attempt")
    case (Resolved v)
    with "1.prems" show ?thesis by (subst (1 2) retry_loop.simps) simp
  next
    case Pending
    with "1.prems" show ?thesis by (subst (1 2) retry_loop.simps) simp
  next
    case (Rejected err)
    show ?thesis
    proof (cases "attempt = maxAttempts options")
      case True
      with Rejected "1.prems" show ?thesis by (subst (1 2) retry_loop.simps) simp
    next
      case False
      with "1.prems" have "attempt + 1 \<le> maxAttempts options" by simp
      with "1.IH" [OF "1.prems"(2) Rejected False] "1.prems" Rejected False show ?thesis
        by (subst (1 2) retry_loop.simps) simp
    qed
  qed
qed

lemma service_compensate_eq:
  "GasRelayerService_compensateRelayer fetch am now cc relayer gasUsed =
     (let run = retryWithBackoff (cc relayer gasUsed) defaultRetryOptions in
      case outcome run of
        Resolved _ \<Rightarrow>
          \<lparr> result = Resolved (), submissions = invocations run, slept = delays run,
            console = [], alerts = [] \<rparr>
      | Pending \<Rightarrow>
          \<lparr> result = Pending, submissions = invocations run, slept = delays run,
            console = [], alerts = [] \<rparr>
      | Rejected error \<Rightarrow>
          (case read_message error of
             Inl typeError \<Rightarrow>
               \<lparr> result = Rejected typeError, submissions = invocations run,
                 slept = delays run, console = [], alerts = [] \<rparr>
           | Inr m \<Rightarrow>
               \<lparr> result =
                   (if fetch (webhookUrl am)
                         (alert_request am now ''Relayer Compensation Failed''
                            (''Failed to compensate relayer '' @ relayer @ '': '' @ m) Info)
                       = NeverSettles
                    then Pending else Rejected error),
                 submissions = invocations run, slept = delays run,
                 console = printed (sendAlert fetch am now ''Relayer Compensation Failed''
                             (''Failed to compensate relayer '' @ relayer @ '': '' @ m) Info),
                 alerts = [(webhookUrl am,
                            alert_request am now ''Relayer Compensation Failed''
                              (''Failed to compensate relayer '' @ relayer @ '': '' @ m) Info)] \<rparr>))"
  unfolding GasRelayerService_compensateRelayer_def Let_def sendAlert_settled sendAlert_posted
  by (simp split: promise.splits sum.splits)

lemma service_withdraw_eq:
  "GasRelayerService_withdrawRelayerBalance fetch am now wc relayer signer =
     (let run = retryWithBackoff (wc signer) defaultRetryOptions in
      case outcome run of
        Resolved _ \<Rightarrow>
          \<lparr> result = Resolved (), submissions = invocations run, slept = delays run,
            console = [], alerts = [] \<rparr>
      | Pending \<Rightarrow>
          \<lparr> result = Pending, submissions = invocations run, slept = delays run,
            console = [], alerts = [] \<rparr>
      | Rejected error \<Rightarrow>
          (case read_message error of
             Inl typeError \<Rightarrow>
               \<lparr> result = Rejected typeError, submissions = invocations run,
                 slept = delays run, console = [], alerts = [] \<rparr>
           | Inr m \<Rightarrow>
               \<lparr> result =
                   (if fetch (webhookUrl am)
                         (alert_request am now ''Withdrawal Failed''
                            (''Failed to withdraw relayer balance for '' @ relayer @ '': '' @ m) Info)
                       = NeverSettles
                    then Pending else Rejected error),
                 submissions = invocations run, slept = delays run,
                 console = printed (sendAlert fetch am now ''Withdrawal Failed''
                             (''Failed to withdraw relayer balance for '' @ relayer @ '': '' @ m) Info),
                 alerts = [(webhookUrl am,
                            alert_request am now ''Withdrawal Failed''
                              (''Failed to withdraw relayer balance for '' @ relayer @ '': '' @ m)
                              Info)] \<rparr>))"
  unfolding GasRelayerService_withdrawRelayerBalance_def Let_def sendAlert_settled sendAlert_posted
  by (simp split: promise.splits sum.splits)

text \<open>
  Claim C9, as far as it holds. When the webhook request settles (the connection fails,
  something throws, the response is not OK, the response is OK), \<open>sendAlert\<close> resolves:
  it never rejects. It has made one POST request to the webhook, and it has printed the
  caught value after "Error sending alert:" in the first two cases and the status text
  after "Failed to send alert: " in the third. When the request never settles,
  \<open>sendAlert\<close> never settles either. The service methods await \<open>sendAlert\<close> in their
  \<open>catch\<close> block: a failed delivery never changes what they throw, which is the error of
  the contract call, but they throw it only once the webhook request has settled, and
  never settle when it does not.
\<close>

theorem sendAlert_never_throws:
  "settled (sendAlert fetch am now ttl msg sev) =
     (if fetch (webhookUrl am) (alert_request am now ttl msg sev) = NeverSettles
      then Pending else Resolved ())
 \<and> printed (sendAlert fetch am now ttl msg sev) =
     (case fetch (webhookUrl am) (alert_request am now ttl msg sev) of
        NetworkError err \<Rightarrow> [ErrorValue ''Error sending alert:'' err]
      | Thrown err \<Rightarrow> [ErrorValue ''Error sending alert:'' err]
      | Response ok statusText \<Rightarrow>
          if ok then [] else [ErrorText (''Failed to send alert: '' @ statusText)]
      | NeverSettles \<Rightarrow> [])
 \<and> posted (sendAlert fetch am now ttl msg sev) =
     [(webhookUrl am, alert_request am now ttl msg sev)]
 \<and> result (GasRelayerService_compensateRelayer fetch am now cc relayer gasUsed) =
     (case outcome (retryWithBackoff (cc relayer gasUsed) defaultRetryOptions) of
        Resolved _ \<Rightarrow> Resolved ()
      | Pending \<Rightarrow> Pending
      | Rejected error \<Rightarrow>
          (case read_message error of
             Inl typeError \<Rightarrow> Rejected typeError
           | Inr m \<Rightarrow>
               if fetch (webhookUrl am)
                    (alert_request am now ''Relayer Compensation Failed''
                       (''Failed to compensate relayer '' @ relayer @ '': '' @ m) Info)
                  = NeverSettles
               then Pending else Rejected error))
 \<and> result (GasRelayerService_withdrawRelayerBalance fetch am now wc relayer signer) =
     (case outcome (retryWithBackoff (wc signer) defaultRetryOptions) of
        Resolved _ \<Rightarrow> Resolved ()
      | Pending \<Rightarrow> Pending
      | Rejected error \<Rightarrow>
          (case read_message error of
             Inl typeError \<Rightarrow> Rejected typeError
           | Inr m \<Rightarrow>
               if fetch (webhookUrl am)
                    (alert_request am now ''Withdrawal Failed''
                       (''Failed to withdraw relayer balance for '' @ relayer @ '': '' @ m) Info)
                  = NeverSettles
               then Pending else Rejected error))"
  unfolding service_compensate_eq service_withdraw_eq Let_def
  by (simp add: sendAlert_settled sendAlert_printed sendAlert_posted
      split: promise.splits sum.splits)

theorem sendAlert_never_throws_witness:
  "settled (sendAlert failing_fetch example_manager example_now ''t'' ''m'' Warning) = Resolved ()
 \<and> printed (sendAlert failing_fetch example_manager example_now ''t'' ''m'' Warning)
      = [ErrorValue ''Error sending alert:'' (JsError ''fetch failed'')]
 \<and> result (GasRelayerService_compensateRelayer failing_fetch example_manager example_now
             always_reverting ''0x05'' 50000)
      = Rejected (JsError ''Failed after 3 attempts. Last error: execution reverted'')"
  using sendAlert_never_throws [where fetch = failing_fetch and am = example_manager
      and now = example_now and ttl = "''t''" and msg = "''m''" and sev = Warning
      and cc = always_reverting and relayer = "''0x05''" and gasUsed = 50000]
  by (simp add: failing_fetch_def always_reverting_def retryWithBackoff_default
      exhausted_error_def)

text \<open>
  Claim C9 as stated fails for "never blocks the caller": with a webhook that never
  answers, \<open>sendAlert\<close> stays pending, and so does the service method that awaits it after
  three failed contract calls: its caller never receives the failure.
\<close>

theorem sendAlert_blocks_counterexample:
  "settled (sendAlert hanging_fetch example_manager example_now ''Relayer Compensation Failed''
       ''Failed to compensate relayer 0x05: Failed after 3 attempts. Last error: execution reverted''
       Info) = Pending
 \<and> result (GasRelayerService_compensateRelayer hanging_fetch example_manager example_now
             always_reverting ''0x05'' 50000) = Pending"
  by (simp add: sendAlert_settled service_compensate_eq retryWithBackoff_default Let_def
      hanging_fetch_def always_reverting_def exhausted_error_def)

text \<open>
  Claim C5, as far as it holds. \<open>GasRelayerService.compensateRelayer\<close> and
  \<open>GasRelayerService.withdrawRelayerBalance\<close> run the contract call inside
  \<open>retryWithBackoff\<close> with the default options. The transaction is submitted at least
  once and at most three times; the method resolves as soon as one attempt resolves,
  having slept 1000 ms after a failed first attempt and 2000 ms after a failed second one,
  and then sends no alert. When all three attempts are rejected, the method has slept
  1000 and 2000 ms, posts one alert to the webhook, with the title of the method and the
  message of the error in its text, and rejects once that request has settled (it stays
  pending when the request never settles). The error is "Failed after 3 attempts. Last
  error: ..." with the message of the last rejection, or the \<open>TypeError\<close> of reading
  \<open>message\<close> when the last rejection value is \<open>undefined\<close> or \<open>null\<close>.
\<close>

theorem financial_calls_retried:
  "(let R = GasRelayerService_compensateRelayer fetch am now cc relayer gasUsed in
      1 \<le> submissions R \<and> submissions R \<le> 3
    \<and> (cc relayer gasUsed 1 = Resolved () \<longrightarrow>
         R = \<lparr> result = Resolved (), submissions = 1, slept = [], console = [], alerts = [] \<rparr>)
    \<and> (cc relayer gasUsed 1 = Rejected a \<and> cc relayer gasUsed 2 = Resolved () \<longrightarrow>
         R = \<lparr> result = Resolved (), submissions = 2, slept = [1000], console = [],
               alerts = [] \<rparr>)
    \<and> (cc relayer gasUsed 1 = Rejected a \<and> cc relayer gasUsed 2 = Rejected b
         \<and> cc relayer gasUsed 3 = Resolved () \<longrightarrow>
         R = \<lparr> result = Resolved (), submissions = 3, slept = [1000, 2000], console = [],
               alerts = [] \<rparr>)
    \<and> (cc relayer gasUsed 1 = Rejected a \<and> cc relayer gasUsed 2 = Rejected b
         \<and> cc relayer gasUsed 3 = Rejected c \<longrightarrow>
         (\<exists>M. read_message (exhausted_error 3 c) = Inr M
            \<and> R = \<lparr> result =
                       (if fetch (webhookUrl am)
                             (alert_request am now ''Relayer Compensation Failed''
                                (''Failed to compensate relayer '' @ relayer @ '': '' @ M) Info)
                           = NeverSettles
                        then Pending else Rejected (exhausted_error 3 c)),
                     submissions = 3, slept = [1000, 2000],
                     console = printed (sendAlert fetch am now ''Relayer Compensation Failed''
                                 (''Failed to compensate relayer '' @ relayer @ '': '' @ M) Info),
                     alerts = [(webhookUrl am,
                                alert_request am now ''Relayer Compensation Failed''
                                  (''Failed to compensate relayer '' @ relayer @ '': '' @ M)
                                  Info)] \<rparr>)))
 \<and> (let W = GasRelayerService_withdrawRelayerBalance fetch am now wc relayer signer in
      1 \<le> submissions W \<and> submissions W \<le> 3
    \<and> (wc signer 1 = Resolved () \<longrightarrow>
         W = \<lparr> result = Resolved (), submissions = 1, slept = [], console = [], alerts = [] \<rparr>)
    \<and> (wc signer 1 = Rejected a' \<and> wc signer 2 = Resolved () \<longrightarrow>
         W = \<lparr> result = Resolved (), submissions = 2, slept = [1000], console = [],
               alerts = [] \<rparr>)
    \<and> (wc signer 1 = Rejected a' \<and> wc signer 2 = Rejected b' \<and> wc signer 3 = Resolved () \<longrightarrow>
         W = \<lparr> result = Resolved (), submissions = 3, slept = [1000, 2000], console = [],
               alerts = [] \<rparr>)
    \<and> (wc signer 1 = Rejected a' \<and> wc signer 2 = Rejected b' \<and> wc signer 3 = Rejected c' \<longrightarrow>
         (\<exists>M. read_message (exhausted_error 3 c') = Inr M
            \<and> W = \<lparr> result =
                       (if fetch (webhookUrl am)
                             (alert_request am now ''Withdrawal Failed''
                                (''Failed to withdraw relayer balance for '' @ relayer @ '': '' @ M)
                                Info)
                           = NeverSettles
                        then Pending else Rejected (exhausted_error 3 c')),
                     submissions = 3, slept = [1000, 2000],
                     console = printed (sendAlert fetch am now ''Withdrawal Failed''
                                 (''Failed to withdraw relayer balance for '' @ relayer @ '': '' @ M)
                                 Info),
                     alerts = [(webhookUrl am,
                                alert_request am now ''Withdrawal Failed''
                                  (''Failed to withdraw relayer balance for '' @ relayer @ '': '' @ M)
                                  Info)] \<rparr>)))
 \<and> exhausted_error 3 (JsError m) = JsError (''Failed after 3 attempts. Last error: '' @ m)
 \<and> exhausted_error 3 Undefined = property_of_nothing ''undefined'' ''message''"
proof -
  obtain M where M: "read_message (exhausted_error 3 c) = Inr M"
    using read_message_exhausted by blast
  obtain M' where M': "read_message (exhausted_error 3 c') = Inr M'"
    using read_message_exhausted by blast
  have e: "exhausted_error 3 (JsError m) = JsError (''Failed after 3 attempts. Last error: '' @ m)"
    "exhausted_error 3 Undefined = property_of_nothing ''undefined'' ''message''"
    by (simp_all add: exhausted_error_def)
  have C: "let R = GasRelayerService_compensateRelayer fetch am now cc relayer gasUsed in
      1 \<le> submissions R \<and> submissions R \<le> 3
    \<and> (cc relayer gasUsed 1 = Resolved () \<longrightarrow>
         R = \<lparr> result = Resolved (), submissions = 1, slept = [], console = [], alerts = [] \<rparr>)
    \<and> (cc relayer gasUsed 1 = Rejected a \<and> cc relayer gasUsed 2 = Resolved () \<longrightarrow>
         R = \<lparr> result = Resolved (), submissions = 2, slept = [1000], console = [],
               alerts = [] \<rparr>)
    \<and> (cc relayer gasUsed 1 = Rejected a \<and> cc relayer gasUsed 2 = Rejected b
         \<and> cc relayer gasUsed 3 = Resolved () \<longrightarrow>
         R = \<lparr> result = Resolved (), submissions = 3, slept = [1000, 2000], console = [],
               alerts = [] \<rparr>)
    \<and> (cc relayer gasUsed 1 = Rejected a \<and> cc relayer gasUsed 2 = Rejected b
         \<and> cc relayer gasUsed 3 = Rejected c \<longrightarrow>
         (\<exists>M. read_message (exhausted_error 3 c) = Inr M
            \<and> R = \<lparr> result =
                       (if fetch (webhookUrl am)
                             (alert_request am now ''Relayer Compensation Failed''
                                (''Failed to compensate relayer '' @ relayer @ '': '' @ M) Info)
                           = NeverSettles
                        then Pending else Rejected (exhausted_error 3 c)),
                     submissions = 3, slept = [1000, 2000],
                     console = printed (sendAlert fetch am now ''Relayer Compensation Failed''
                                 (''Failed to compensate relayer '' @ relayer @ '': '' @ M) Info),
                     alerts = [(webhookUrl am,
                                alert_request am now ''Relayer Compensation Failed''
                                  (''Failed to compensate relayer '' @ relayer @ '': '' @ M)
                                  Info)] \<rparr>))"
    unfolding service_compensate_eq retryWithBackoff_default Let_def
    using M by (auto split: promise.splits sum.splits)
  have W: "let W = GasRelayerService_withdrawRelayerBalance fetch am now wc relayer signer in
      1 \<le> submissions W \<and> submissions W \<le> 3
    \<and> (wc signer 1 = Resolved () \<longrightarrow>
         W = \<lparr> result = Resolved (), submissions = 1, slept = [], console = [], alerts = [] \<rparr>)
    \<and> (wc signer 1 = Rejected a' \<and> wc signer 2 = Resolved () \<longrightarrow>
         W = \<lparr> result = Resolved (), submissions = 2, slept = [1000], console = [],
               alerts = [] \<rparr>)
    \<and> (wc signer 1 = Rejected a' \<and> wc signer 2 = Rejected b' \<and> wc signer 3 = Resolved () \<longrightarrow>
         W = \<lparr> result = Resolved (), submissions = 3, slept = [1000, 2000], console = [],
               alerts = [] \<rparr>)
    \<and> (wc signer 1 = Rejected a' \<and> wc signer 2 = Rejected b' \<and> wc signer 3 = Rejected c' \<longrightarrow>
         (\<exists>M. read_message (exhausted_error 3 c') = Inr M
            \<and> W = \<lparr> result =
                       (if fetch (webhookUrl am)
                             (alert_request am now ''Withdrawal Failed''
                                (''Failed to withdraw relayer balance for '' @ relayer @ '': '' @ M)
                                Info)
                           = NeverSettles
                        then Pending else Rejected (exhausted_error 3 c')),
                     submissions = 3, slept = [1000, 2000],
                     console = printed (sendAlert fetch am now ''Withdrawal Failed''
                                 (''Failed to withdraw relayer balance for '' @ relayer @ '': '' @ M)
                                 Info),
                     alerts = [(webhookUrl am,
                                alert_request am now ''Withdrawal Failed''
                                  (''Failed to withdraw relayer balance for '' @ relayer @ '': '' @ M)
                                  Info)] \<rparr>))"
    unfolding service_withdraw_eq retryWithBackoff_default Let_def
    using M' by (auto split: promise.splits sum.splits)
  show ?thesis using C W e by blast
qed

theorem financial_calls_retried_witness:
  "GasRelayerService_compensateRelayer failing_fetch example_manager example_now
       always_reverting ''0x05'' 50000
     = \<lparr> result = Rejected (JsError ''Failed after 3 attempts. Last error: execution reverted''),
         submissions = 3, slept = [1000, 2000],
         console = [ErrorValue ''Error sending alert:'' (JsError ''fetch failed'')],
         alerts = [(''https://hooks.example/alerts'',
                    alert_request example_manager example_now ''Relayer Compensation Failed''
                      ''Failed to compensate relayer 0x05: Failed after 3 attempts. Last error: execution reverted''
                      Info)] \<rparr>
 \<and> GasRelayerService_compensateRelayer failing_fetch example_manager example_now
       failing_once ''0x05'' 50000
     = \<lparr> result = Resolved (), submissions = 2, slept = [1000], console = [], alerts = [] \<rparr>
 \<and> result (GasRelayerService_compensateRelayer ok_fetch example_manager example_now
       rejecting_undefined ''0x05'' 50000)
     = Rejected (property_of_nothing ''undefined'' ''message'')
 \<and> submissions (GasRelayerService_withdrawRelayerBalance failing_fetch example_manager
       example_now (\<lambda>signer. always_reverting ''0x05'' 0) ''0x05'' 5) = 3
 \<and> GasRelayerService_withdrawRelayerBalance failing_fetch example_manager
       example_now (\<lambda>signer. failing_once ''0x05'' 0) ''0x05'' 5
     = \<lparr> result = Resolved (), submissions = 2, slept = [1000], console = [], alerts = [] \<rparr>"
proof -
  note a = financial_calls_retried [where fetch = failing_fetch and am = example_manager
      and now = example_now and cc = always_reverting and relayer = "''0x05''"
      and gasUsed = 50000 and wc = "\<lambda>signer. always_reverting ''0x05'' 0" and signer = 5
      and a = "JsError ''execution reverted''" and b = "JsError ''execution reverted''"
      and c = "JsError ''execution reverted''"
      and a' = "JsError ''execution reverted''" and b' = "JsError ''execution reverted''"
      and c' = "JsError ''execution reverted''" and m = "''execution reverted''"]
  note b = financial_calls_retried [where fetch = failing_fetch and am = example_manager
      and now = example_now and cc = failing_once and relayer = "''0x05''"
      and gasUsed = 50000 and wc = "\<lambda>signer. failing_once ''0x05'' 0" and signer = 5
      and a = "JsError ''timeout''" and a' = "JsError ''timeout''"]
  note c = financial_calls_retried [where fetch = ok_fetch and am = example_manager
      and now = example_now and cc = rejecting_undefined and relayer = "''0x05''"
      and gasUsed = 50000 and a = Undefined and b = Undefined and c = Undefined
      and wc = "\<lambda>signer. failing_once ''0x05'' 0" and signer = 5
      and a' = "JsError ''timeout''"]
  have 1: "GasRelayerService_compensateRelayer failing_fetch example_manager example_now
       always_reverting ''0x05'' 50000
     = \<lparr> result = Rejected (JsError ''Failed after 3 attempts. Last error: execution reverted''),
         submissions = 3, slept = [1000, 2000],
         console = [ErrorValue ''Error sending alert:'' (JsError ''fetch failed'')],
         alerts = [(''https://hooks.example/alerts'',
                    alert_request example_manager example_now ''Relayer Compensation Failed''
                      ''Failed to compensate relayer 0x05: Failed after 3 attempts. Last error: execution reverted''
                      Info)] \<rparr>"
    using a
    by (auto simp: Let_def always_reverting_def failing_fetch_def sendAlert_printed
        example_manager_def exhausted_error_def)
  have 2: "submissions (GasRelayerService_withdrawRelayerBalance failing_fetch example_manager
       example_now (\<lambda>signer. always_reverting ''0x05'' 0) ''0x05'' 5) = 3"
    using a by (auto simp: Let_def always_reverting_def exhausted_error_def)
  have 3: "GasRelayerService_compensateRelayer failing_fetch example_manager example_now
       failing_once ''0x05'' 50000
     = \<lparr> result = Resolved (), submissions = 2, slept = [1000], console = [], alerts = [] \<rparr>"
    "GasRelayerService_withdrawRelayerBalance failing_fetch example_manager
       example_now (\<lambda>signer. failing_once ''0x05'' 0) ''0x05'' 5
     = \<lparr> result = Resolved (), submissions = 2, slept = [1000], console = [], alerts = [] \<rparr>"
    using b by (simp_all add: Let_def failing_once_def)
  have 4: "result (GasRelayerService_compensateRelayer ok_fetch example_manager example_now
       rejecting_undefined ''0x05'' 50000)
     = Rejected (property_of_nothing ''undefined'' ''message'')"
    using c
    by (auto simp: Let_def rejecting_undefined_def ok_fetch_def exhausted_error_def
        property_of_nothing_def)
  show ?thesis using 1 2 3 4 by simp
qed

text \<open>
  Claim C5 as stated fails: a contract call that always reverts is submitted three times,
  with delays of 1000 and 2000 ms, and a call that fails once is submitted again, so that
  the first failure never reaches the caller.
\<close>

theorem financial_calls_retried_counterexample:
  "submissions (GasRelayerService_compensateRelayer ok_fetch example_manager example_now
      always_reverting ''0x05'' 50000) = 3
 \<and> slept (GasRelayerService_compensateRelayer ok_fetch example_manager example_now
      always_reverting ''0x05'' 50000) = [1000, 2000]
 \<and> submissions (GasRelayerService_compensateRelayer ok_fetch example_manager example_now
      failing_once ''0x05'' 50000) = 2
 \<and> result (GasRelayerService_compensateRelayer ok_fetch example_manager example_now
      failing_once ''0x05'' 50000) = Resolved ()"
  by (simp add: service_compensate_eq retryWithBackoff_default Let_def always_reverting_def
      failing_once_def exhausted_error_def)

end
